theory Spec2Isabelle
  imports Complex_Main
begin

section \<open>Python 2 byte-string operations used by the parser\<close>

text \<open>
  The parser is Python 2 code: \<open>map\<close> returns a list (its length is taken on line 152)
  and the lines read from the file are byte strings. A string is a \<open>char list\<close>.
  Each function below models one \<open>str\<close> method with the argument order of the method call.
\<close>

definition is_space :: "char \<Rightarrow> bool" where
  \<comment> \<open>the characters that \<open>str.split()\<close> and \<open>str.strip()\<close> treat as whitespace\<close>
  "is_space c = (c \<in> set [CHR '' '', CHR 0x09, CHR 0x0A, CHR 0x0B, CHR 0x0C, CHR 0x0D])"

fun py_startswith :: "string \<Rightarrow> string \<Rightarrow> bool" where
  \<comment> \<open>\<open>s.startswith(p)\<close>\<close>
  "py_startswith s [] = True"
| "py_startswith [] (p # ps) = False"
| "py_startswith (c # cs) (p # ps) = (c = p \<and> py_startswith cs ps)"

fun py_in :: "string \<Rightarrow> string \<Rightarrow> bool" where
  \<comment> \<open>\<open>sub in s\<close>\<close>
  "py_in sub [] = (sub = [])"
| "py_in sub (c # cs) = (py_startswith (c # cs) sub \<or> py_in sub cs)"

fun py_find :: "string \<Rightarrow> string \<Rightarrow> int" where
  \<comment> \<open>\<open>s.find(sub)\<close>: the lowest index of \<open>sub\<close> in \<open>s\<close>, or -1\<close>
  "py_find [] sub = (if sub = [] then 0 else -1)"
| "py_find (c # cs) sub =
     (if py_startswith (c # cs) sub then 0
      else (let k = py_find cs sub in if k < 0 then -1 else k + 1))"

definition py_upto :: "int \<Rightarrow> 'a list \<Rightarrow> 'a list" where
  \<comment> \<open>the slice \<open>s[:k]\<close>; a negative \<open>k\<close> counts from the end\<close>
  "py_upto k s = (if 0 \<le> k then take (nat k) s else take (length s - nat (- k)) s)"

fun py_words :: "string \<Rightarrow> string \<Rightarrow> string list" where
  \<comment> \<open>\<open>cur\<close> is the token being read\<close>
  "py_words cur [] = (if cur = [] then [] else [cur])"
| "py_words cur (c # cs) =
     (if is_space c then (if cur = [] then py_words [] cs else cur # py_words [] cs)
      else py_words (cur @ [c]) cs)"

definition py_split_ws :: "string \<Rightarrow> string list" where
  \<comment> \<open>\<open>s.split()\<close>: the maximal runs of non-whitespace characters\<close>
  "py_split_ws s = py_words [] s"

fun py_split_from :: "string \<Rightarrow> nat \<Rightarrow> string \<Rightarrow> string \<Rightarrow> string list" where
  \<comment> \<open>\<open>skip\<close> counts the characters of a separator occurrence still to pass over\<close>
  "py_split_from sep skip cur [] = [cur]"
| "py_split_from sep skip cur (c # cs) =
     (if 0 < skip then py_split_from sep (skip - 1) cur cs
      else if py_startswith (c # cs) sep then cur # py_split_from sep (length sep - 1) [] cs
      else py_split_from sep 0 (cur @ [c]) cs)"

definition py_split :: "string \<Rightarrow> string \<Rightarrow> string list" where
  \<comment> \<open>\<open>s.split(sep)\<close> for a non-empty separator (every separator in the source is a literal)\<close>
  "py_split sep s = py_split_from sep 0 [] s"

fun py_replace_from :: "string \<Rightarrow> string \<Rightarrow> nat \<Rightarrow> string \<Rightarrow> string" where
  "py_replace_from old new skip [] = []"
| "py_replace_from old new skip (c # cs) =
     (if 0 < skip then py_replace_from old new (skip - 1) cs
      else if py_startswith (c # cs) old then new @ py_replace_from old new (length old - 1) cs
      else c # py_replace_from old new 0 cs)"

definition py_replace :: "string \<Rightarrow> string \<Rightarrow> string \<Rightarrow> string" where
  \<comment> \<open>\<open>s.replace(old, new)\<close> for a non-empty \<open>old\<close>: every occurrence, left to right\<close>
  "py_replace old new s = py_replace_from old new 0 s"

definition py_strip :: "string \<Rightarrow> string \<Rightarrow> string" where
  \<comment> \<open>\<open>s.strip(chars)\<close>: removes the characters of \<open>chars\<close> at both ends\<close>
  "py_strip chars s =
     rev (dropWhile (\<lambda>c. c \<in> set chars) (rev (dropWhile (\<lambda>c. c \<in> set chars) s)))"

definition py_strip_ws :: "string \<Rightarrow> string" where
  \<comment> \<open>\<open>s.strip()\<close>\<close>
  "py_strip_ws s = rev (dropWhile is_space (rev (dropWhile is_space s)))"

definition lower_char :: "char \<Rightarrow> char" where
  "lower_char c =
     (case map_of (zip ''ABCDEFGHIJKLMNOPQRSTUVWXYZ'' ''abcdefghijklmnopqrstuvwxyz'') c of
        Some d \<Rightarrow> d | None \<Rightarrow> c)"

definition py_lower :: "string \<Rightarrow> string" where
  \<comment> \<open>\<open>s.lower()\<close> of a byte string\<close>
  "py_lower s = map lower_char s"

fun py_join :: "string \<Rightarrow> string list \<Rightarrow> string" where
  \<comment> \<open>\<open>sep.join(xs)\<close>\<close>
  "py_join sep [] = []"
| "py_join sep [x] = x"
| "py_join sep (x # y # ys) = x @ sep @ py_join sep (y # ys)"


section \<open>The format detector\<close>

definition fingerprints :: "string \<Rightarrow> bool" where
  "fingerprints test_string =
     (if (py_in ''pwscf'' test_string \<or> py_in ''PWSCF'' test_string)
          \<and> py_in ''     Current dimensions of program '' test_string
      then True else False)"

definition fingerprints_spec :: "string \<Rightarrow> bool" where
  \<comment> \<open>the detector as the specification words it: the program token matched
      case-insensitively, and the exact section-header marker\<close>
  "fingerprints_spec sample =
     (py_in ''pwscf'' (py_lower sample)
      \<and> py_in ''     Current dimensions of program '' sample)"


section \<open>Atom labels\<close>

definition normalize_symbol :: "string list \<Rightarrow> string \<Rightarrow> string" where
  \<comment> \<open>lines 105-106; \<open>chemical_symbols\<close> is the table of \<open>ase.data\<close>\<close>
  "normalize_symbol chemical_symbols label =
     (let symbol = hd (py_split ''_'' (py_strip ''0123456789'' label))
      in if symbol \<notin> set chemical_symbols \<and> 1 < length symbol then butlast symbol
         else symbol)"

definition normalize_symbol_spec :: "string list \<Rightarrow> string \<Rightarrow> string" where
  \<comment> \<open>the normalisation as the specification words it: only trailing digits are stripped\<close>
  "normalize_symbol_spec chemical_symbols label =
     (let stripped = rev (dropWhile (\<lambda>c. c \<in> set ''0123456789'') (rev label));
          symbol = takeWhile (\<lambda>c. c \<noteq> CHR ''_'') stripped
      in if symbol \<notin> set chemical_symbols \<and> 1 < length symbol then butlast symbol
         else symbol)"


section \<open>The functional lookup table\<close>

record xc_entry =
  xc_name :: string
  xc_type :: "string list"
  xc_setup :: "string list"

definition xc_internal_map :: "(string \<times> xc_entry) list" where
  \<comment> \<open>lines 30-71: the dictionary literal, in source order; its keys are distinct\<close>
  "xc_internal_map = [
    (''pw'', \<lparr>xc_name = ''PW_LDA'', xc_type = [''LDA''], xc_setup = [''sla+pw+nogx+nogc'']\<rparr>),
    (''pz'', \<lparr>xc_name = ''PZ_LDA'', xc_type = [''LDA''], xc_setup = [''sla+pz+nogx+nogc'']\<rparr>),
    (''bp'', \<lparr>xc_name = ''Becke-Perdew grad.corr.'', xc_type = [''GGA''], xc_setup = [''b88+p86+nogx+nogc'']\<rparr>),
    (''pw91'', \<lparr>xc_name = ''PW91'', xc_type = [''GGA''], xc_setup = [''sla+pw+ggx+ggc'']\<rparr>),
    (''blyp'', \<lparr>xc_name = ''BLYP'', xc_type = [''GGA''], xc_setup = [''sla+b88+lyp+blyp'']\<rparr>),
    (''pbe'', \<lparr>xc_name = ''PBE'', xc_type = [''GGA''], xc_setup = [''sla+pw+pbx+pbc'', ''sla+pw+pbe+pbe'']\<rparr>),
    (''revpbe'', \<lparr>xc_name = ''revPBE'', xc_type = [''GGA''], xc_setup = [''sla+pw+rpb+pbc'', ''sla+pw+rpb+pbe'']\<rparr>),
    (''pw86pbe'', \<lparr>xc_name = ''PW86+PBE'', xc_type = [''GGA''], xc_setup = [''sla+pw+pw86+pbc'', ''sla+pw+pw86+pbe'']\<rparr>),
    (''b86bpbe'', \<lparr>xc_name = ''B86b+PBE'', xc_type = [''GGA''], xc_setup = [''sla+pw+b86b+pbc'', ''sla+pw+b86b+pbe'']\<rparr>),
    (''pbesol'', \<lparr>xc_name = ''PBEsol'', xc_type = [''GGA''], xc_setup = [''sla+pw+psx+psc'']\<rparr>),
    (''q2d'', \<lparr>xc_name = ''PBEQ2D'', xc_type = [''GGA''], xc_setup = [''sla+pw+q2dx+q2dc'']\<rparr>),
    (''hcth'', \<lparr>xc_name = ''HCTH/120'', xc_type = [''GGA''], xc_setup = [''nox+noc+hcth+hcth'']\<rparr>),
    (''olyp'', \<lparr>xc_name = ''OLYP'', xc_type = [''GGA''], xc_setup = [''nox+lyp+optx+blyp'']\<rparr>),
    (''wc'', \<lparr>xc_name = ''Wu-Cohen'', xc_type = [''GGA''], xc_setup = [''sla+pw+wcx+pbc'', ''sla+pw+wcx+pbe'']\<rparr>),
    (''sogga'', \<lparr>xc_name = ''SOGGA'', xc_type = [''GGA''], xc_setup = [''sla+pw+sox+pbc'', ''sla+pw+sox+pbe'']\<rparr>),
    (''optbk88'', \<lparr>xc_name = ''optB88'', xc_type = [''GGA''], xc_setup = [''sla+pw+obk8+p86'']\<rparr>),
    (''optb86b'', \<lparr>xc_name = ''optB86'', xc_type = [''GGA''], xc_setup = [''sla+pw+ob86+p86'']\<rparr>),
    (''ev93'', \<lparr>xc_name = ''Engel-Vosko'', xc_type = [''GGA''], xc_setup = [''sla+pw+evx+nogc'']\<rparr>),
    (''tpss'', \<lparr>xc_name = ''TPSS'', xc_type = [''meta-GGA''], xc_setup = [''sla+pw+tpss+tpss'']\<rparr>),
    (''m06l'', \<lparr>xc_name = ''M06L'', xc_type = [''meta-GGA''], xc_setup = [''nox+noc+m6lx+m6lc'']\<rparr>),
    (''tb09'', \<lparr>xc_name = ''TB09'', xc_type = [''meta-GGA''], xc_setup = [''sla+pw+tb09+tb09'']\<rparr>),
    (''pbe0'', \<lparr>xc_name = ''PBE0'', xc_type = [''GGA'', ''hybrid''], xc_setup = [''pb0x+pw+pb0x+pbc'', ''pb0x+pw+pb0x+pbe'']\<rparr>),
    (''hse'', \<lparr>xc_name = ''HSE06'', xc_type = [''GGA'', ''hybrid''], xc_setup = [''sla+pw+hse+pbc'', ''sla+pw+hse+pbe'']\<rparr>),
    (''b3lyp'', \<lparr>xc_name = ''B3LYP'', xc_type = [''GGA'', ''hybrid''], xc_setup = [''b3lp+vwn+b3lp+b3lp'']\<rparr>),
    (''gaupbe'', \<lparr>xc_name = ''Gau-PBE'', xc_type = [''GGA'', ''hybrid''], xc_setup = [''sla+pw+gaup+pbc'', ''sla+pw+gaup+pbe'']\<rparr>),
    (''vdw-df'', \<lparr>xc_name = ''vdW-DF'', xc_type = [''GGA'', ''vdW''], xc_setup = [''sla+pw+rpb+vdw1'']\<rparr>),
    (''vdw-df2'', \<lparr>xc_name = ''vdW-DF2'', xc_type = [''GGA'', ''vdW''], xc_setup = [''sla+pw+rw86+vdw2'']\<rparr>),
    (''vdw-df-c09'', \<lparr>xc_name = ''vdW-DF-C09'', xc_type = [''GGA'', ''vdW''], xc_setup = [''sla+pw+c09x+vdw1'']\<rparr>),
    (''vdw-df2-c09'', \<lparr>xc_name = ''vdW-DF2-C09'', xc_type = [''GGA'', ''vdW''], xc_setup = [''sla+pw+c09x+vdw2'']\<rparr>),
    (''vdw-df-cx'', \<lparr>xc_name = ''vdW-DF-cx'', xc_type = [''GGA'', ''vdW''], xc_setup = [''sla+pw+cx13+vdW1'']\<rparr>),
    (''vdw-df-obk8'', \<lparr>xc_name = ''vdW-DF-obk8'', xc_type = [''GGA'', ''vdW''], xc_setup = [''sla+pw+obk8+vdw1'']\<rparr>),
    (''vdw-df-ob86'', \<lparr>xc_name = ''vdW-DF-ob86'', xc_type = [''GGA'', ''vdW''], xc_setup = [''sla+pw+ob86+vdw1'']\<rparr>),
    (''vdw-df2-b86r'', \<lparr>xc_name = ''vdW-DF2-B86R'', xc_type = [''GGA'', ''vdW''], xc_setup = [''sla+pw+b86r+vdw2'']\<rparr>),
    (''rvv10'', \<lparr>xc_name = ''rVV10'', xc_type = [''GGA'', ''vdW''], xc_setup = [''sla+pw+rw86+pbc+vv10'', ''sla+pw+rw86+pbe+vv10'']\<rparr>),
    (''hf'', \<lparr>xc_name = ''Hartree-Fock'', xc_type = [''HF''], xc_setup = [''hf+noc+nogx+nogc'']\<rparr>),
    (''vdw-df3'', \<lparr>xc_name = ''vdW-DF3'', xc_type = [''GGA'', ''vdW''], xc_setup = [''sla+pw+rw86+vdw3'']\<rparr>),
    (''vdw-df4'', \<lparr>xc_name = ''vdW-DF4'', xc_type = [''GGA'', ''vdW''], xc_setup = [''sla+pw+rw86+vdw4'']\<rparr>),
    (''gaup'', \<lparr>xc_name = ''Gau-PBE'', xc_type = [''GGA'', ''hybrid''], xc_setup = [''sla+pw+gaup+pbc'', ''sla+pw+gaup+pbe'']\<rparr>)]"

definition xc_values :: "xc_entry list" where
  \<comment> \<open>\<open>xc_internal_map.values()\<close>; Python 2 leaves the order of a dictionary's values
      unspecified, the order of the literal is taken here\<close>
  "xc_values = map snd xc_internal_map"

definition xc_str :: "string \<Rightarrow> string" where
  \<comment> \<open>line 146: the descriptor, the text after the last \<open>=\<close>\<close>
  "xc_str cur_line = py_strip_ws (last (py_split ''='' cur_line))"

definition xc_descriptor :: "string \<Rightarrow> string" where
  \<comment> \<open>line 147: the slice \<open>xc_str[ : xc_str.find("(") ]\<close> that is tokenized\<close>
  "xc_descriptor cur_line = py_upto (py_find (xc_str cur_line) ''('') (xc_str cur_line)"

definition xc_parts :: "string \<Rightarrow> string list" where
  \<comment> \<open>lines 147-150: the normalised tokens of the descriptor\<close>
  "xc_parts cur_line =
     (let parts0 = py_split_ws (xc_descriptor cur_line);
          parts1 = (if length parts0 = 1 then py_split ''+'' (hd parts0) else parts0);
          parts2 = (if length parts1 < 4 then [py_join ''+'' parts1] else parts1)
      in map (\<lambda>x. py_strip [CHR ''-'', CHR 0x27, CHR 0x22] (py_lower x)) parts2)"

definition xc_lookup :: "string list \<Rightarrow> string \<times> string list" where
  \<comment> \<open>lines 152-165: the name stored in \<open>info['H']\<close> and the tags appended to
      \<open>info['H_types']\<close>; a \<open>KeyError\<close> is caught by the source\<close>
  "xc_lookup parts =
     (if length parts = 1 then
        (case map_of xc_internal_map (hd parts) of
           Some e \<Rightarrow> (xc_name e, xc_type e)
         | None \<Rightarrow> (hd parts, []))
      else
        (let joined = py_join ''+'' parts;
             match = filter (\<lambda>i. joined \<in> set (xc_setup i)) xc_values
         in case match of
              e # _ \<Rightarrow> (xc_name e, xc_type e)
            | [] \<Rightarrow> (joined, [])))"


section \<open>Values, library functions and the parser state\<close>

datatype pyerr =
  IndexError | ValueError | TypeError | AttributeError | LibraryError | UnrecognizedFormat

datatype 'r num = PyInt int | PyFloat 'r

datatype 'r arr = PyList "'r list list" | NdArray "'r list list"

record 'r atoms =
  symbols :: "string list"
  positions :: "'r list list"
  cell :: "'r list list"

text \<open>
  The functions of the Python library, of numpy, of ase and of the operating system that the
  parser calls are parameters: a float is a value of an arbitrary type \<open>'r\<close>, and a call that
  raises returns \<open>None\<close>.
\<close>

record 'r pyenv =
  py_float :: "string \<Rightarrow> 'r option"
  Bohr :: 'r
  Rydberg :: 'r
  fmul :: "'r \<Rightarrow> 'r \<Rightarrow> 'r"
  falsy :: "'r \<Rightarrow> bool"
  chemical_symbols :: "string list"
  np_row_mul :: "'r list \<Rightarrow> 'r num \<Rightarrow> 'r list option"
  np_row_assign :: "'r list \<Rightarrow> 'r list \<Rightarrow> 'r list option"
  ase_Atoms :: "string list \<Rightarrow> 'r arr \<Rightarrow> 'r arr \<Rightarrow> ('r list list \<times> 'r list list) option"
  ase_set_cell :: "'r atoms \<Rightarrow> 'r arr \<Rightarrow> ('r list list \<times> 'r list list) option"
  ase_set_positions :: "'r atoms \<Rightarrow> 'r arr \<Rightarrow> 'r list list option"
  ase_set_scaled_positions :: "'r atoms \<Rightarrow> 'r arr \<Rightarrow> 'r list list option"
  strptime :: "string \<Rightarrow> string \<Rightarrow> (nat \<times> nat \<times> nat) option"
  fmt_hours :: "nat \<times> nat \<times> nat \<Rightarrow> string"
  path_exists :: "string \<Rightarrow> bool"

text \<open>
  \<^item> \<open>py_float\<close> is \<open>float(s)\<close>; \<open>fmul\<close> the product of two floats; \<open>falsy x\<close> is \<open>not x\<close>.
  \<^item> \<open>np_row_mul row k\<close> is one row of \<open>array * k\<close>; \<open>np_row_assign row vals\<close> is the row
    after \<open>row[:] = vals\<close>.
  \<^item> \<open>ase_Atoms\<close> gives the positions and the cell that \<open>Atoms(symbols, positions, cell=...,
    pbc=(1,1,1))\<close> stores; \<open>ase_set_cell\<close> the cell and the positions after
    \<open>set_cell(cell, scale_atoms=True)\<close>; \<open>ase_set_positions\<close> and
    \<open>ase_set_scaled_positions\<close> the positions after the call. None of them changes the
    chemical symbols of the object.
  \<^item> \<open>strptime d fmt\<close> gives \<open>(tm_hour, tm_min, tm_sec)\<close>; \<open>fmt_hours\<close> is the text of
    \<open>"%2.2f" % (timedelta(...).total_seconds()/3600)\<close>.
\<close>

record 'r pstate =
  related_files :: "string list"
  structures :: "'r atoms list"
  electrons_type :: string
  info_framework :: string
  info_finished :: int
  info_prog :: string
  info_energy :: "'r option"
  info_H :: "string option"
  info_H_types :: "string list"
  info_duration :: "string option"
  alat :: "'r num"
  cell_data :: "'r arr"
  pos_data :: "'r arr"
  symbol_data :: "string list"
  atomic_data :: "'r atoms option"

text \<open>
  The first ten fields are those of the object (\<open>self.related_files\<close>, \<open>self.structures\<close>,
  \<open>self.electrons\<close>, \<open>self.info\<close>), the last five the local variables of line 74.
\<close>

definition get_line :: "string list \<Rightarrow> nat \<Rightarrow> pyerr + string" where
  \<comment> \<open>\<open>self.data[n]\<close>\<close>
  "get_line data n = (if n < length data then Inr (data ! n) else Inl IndexError)"

definition map_float :: "'r pyenv \<Rightarrow> string list \<Rightarrow> pyerr + 'r list" where
  \<comment> \<open>\<open>map(float, xs)\<close>, a list in Python 2\<close>
  "map_float env xs =
     (case those (map (py_float env) xs) of None \<Rightarrow> Inl ValueError | Some vs \<Rightarrow> Inr vs)"

definition num_falsy :: "'r pyenv \<Rightarrow> 'r num \<Rightarrow> bool" where
  "num_falsy env a = (case a of PyInt i \<Rightarrow> i = 0 | PyFloat x \<Rightarrow> falsy env x)"

definition rows_of :: "'r arr \<Rightarrow> 'r list list" where
  "rows_of a = (case a of PyList rows \<Rightarrow> rows | NdArray rows \<Rightarrow> rows)"

definition arr_len :: "'r arr \<Rightarrow> nat" where
  \<comment> \<open>\<open>len(a)\<close>\<close>
  "arr_len a = length (rows_of a)"

definition np_array :: "'r arr \<Rightarrow> 'r arr" where
  \<comment> \<open>\<open>array(a)\<close>\<close>
  "np_array a = NdArray (rows_of a)"

definition arr_mul :: "'r pyenv \<Rightarrow> 'r arr \<Rightarrow> 'r num \<Rightarrow> pyerr + 'r arr" where
  \<comment> \<open>\<open>a * k\<close>: a Python list is repeated by an int and refuses a float, an array is
      multiplied row by row\<close>
  "arr_mul env a k =
     (case a of
        PyList rows \<Rightarrow>
          (case k of
             PyInt i \<Rightarrow> Inr (PyList (concat (replicate (nat i) rows)))
           | PyFloat x \<Rightarrow> Inl TypeError)
      | NdArray rows \<Rightarrow>
          (case those (map (\<lambda>row. np_row_mul env row k) rows) of
             None \<Rightarrow> Inl LibraryError
           | Some rows' \<Rightarrow> Inr (NdArray rows')))"

definition arr_row_assign :: "'r pyenv \<Rightarrow> 'r arr \<Rightarrow> nat \<Rightarrow> 'r list \<Rightarrow> pyerr + 'r arr" where
  \<comment> \<open>\<open>a[i][:] = vals\<close>\<close>
  "arr_row_assign env a i vals =
     (case a of
        PyList rows \<Rightarrow>
          (if i < length rows then Inr (PyList (rows[i := vals])) else Inl IndexError)
      | NdArray rows \<Rightarrow>
          (if i < length rows then
             (case np_row_assign env (rows ! i) vals of
                None \<Rightarrow> Inl ValueError
              | Some row \<Rightarrow> Inr (NdArray (rows[i := row])))
           else Inl IndexError))"

definition str_truthy :: "string option \<Rightarrow> bool" where
  \<comment> \<open>the truth value of \<open>self.info['H']\<close>: \<open>None\<close> and the empty string are false\<close>
  "str_truthy h = (case h of None \<Rightarrow> False | Some s \<Rightarrow> s \<noteq> [])"

definition atoms_truthy :: "'r atoms option \<Rightarrow> bool" where
  \<comment> \<open>the truth value of \<open>atomic_data\<close>: \<open>None\<close> and an \<open>Atoms\<close> object of length 0 are false\<close>
  "atoms_truthy ad = (case ad of None \<Rightarrow> False | Some a \<Rightarrow> symbols a \<noteq> [])"


section \<open>The handlers of the line patterns\<close>

text \<open>
  A handler takes the index \<open>n\<close> of the current line and returns the value of the variable
  \<open>n\<close> when it ends, with the new state.
\<close>

definition program_banner :: "string \<Rightarrow> 'r pstate \<Rightarrow> 'r pstate" where
  \<comment> \<open>lines 83-86\<close>
  "program_banner cur_line st =
     (let ver0 = py_replace ''Program PWSCF'' [] (py_strip_ws cur_line);
          ver1 = py_strip_ws (py_upto (py_find ver0 '' starts '') ver0);
          ver_str = (if py_startswith ver1 ''v.'' then drop 2 ver1 else ver1)
      in st\<lparr>info_prog := info_framework st @ '' '' @ ver_str\<rparr>)"

definition celldm :: "'r pyenv \<Rightarrow> string \<Rightarrow> 'r pstate \<Rightarrow> pyerr + 'r pstate" where
  \<comment> \<open>lines 89-91\<close>
  "celldm env cur_line st =
     (if num_falsy env (alat st) then
        (let tokens = py_split_ws cur_line
         in if length tokens < 2 then Inl IndexError
            else (case py_float env (tokens ! 1) of
                    None \<Rightarrow> Inl ValueError
                  | Some x \<Rightarrow>
                      (let a = PyFloat (fmul env x (Bohr env))
                       in Inr (st\<lparr>alat := (if num_falsy env a then PyInt 1 else a)\<rparr>))))
      else Inr st)"

fun float_rows :: "'r pyenv \<Rightarrow> string list list \<Rightarrow> pyerr + 'r list list" where
  "float_rows env [] = Inr []"
| "float_rows env (row # rows) =
     (case map_float env row of
        Inl e \<Rightarrow> Inl e
      | Inr vs \<Rightarrow> (case float_rows env rows of Inl e \<Rightarrow> Inl e | Inr vss \<Rightarrow> Inr (vs # vss)))"

definition crystal_axes :: "'r pyenv \<Rightarrow> string list \<Rightarrow> nat \<Rightarrow> 'r pstate \<Rightarrow> pyerr + 'r pstate" where
  \<comment> \<open>lines 94-95; a slice never raises\<close>
  "crystal_axes env data n st =
     (let rows = map (\<lambda>x. take 3 (drop 3 (py_split_ws x))) (take 3 (drop (n + 1) data))
      in case float_rows env rows of
           Inl e \<Rightarrow> Inl e
         | Inr axes \<Rightarrow> Inr (st\<lparr>cell_data := NdArray axes\<rparr>))"

definition arr_append :: "'r arr \<Rightarrow> 'r list \<Rightarrow> pyerr + 'r arr" where
  \<comment> \<open>\<open>a.append(row)\<close>: an array has no such method\<close>
  "arr_append a row =
     (case a of PyList rows \<Rightarrow> Inr (PyList (rows @ [row])) | NdArray rows \<Rightarrow> Inl AttributeError)"

fun site_loop ::
  "'r pyenv \<Rightarrow> string list \<Rightarrow> nat \<Rightarrow> 'r arr \<Rightarrow> string list \<Rightarrow> pyerr + (nat \<times> 'r arr \<times> string list)"
  where
  \<comment> \<open>lines 100-107; the second argument holds the lines after index \<open>n\<close>\<close>
  "site_loop env [] n pos syms = Inl IndexError"
| "site_loop env (l # ls) n pos syms =
     (let next_line = py_split_ws l
      in if next_line = [] then Inr (n + 1, pos, syms)
         else
           (case pos of
              NdArray rows \<Rightarrow> Inl AttributeError
            | PyList rows \<Rightarrow>
                (case map_float env (drop (length next_line - 4) (take (length next_line - 1) next_line)) of
                   Inl e \<Rightarrow> Inl e
                 | Inr vals \<Rightarrow>
                     (if length next_line < 2 then Inl IndexError
                      else site_loop env ls (n + 1) (PyList (rows @ [vals]))
                             (syms @ [normalize_symbol (chemical_symbols env) (next_line ! 1)])))))"

definition site_table :: "'r pyenv \<Rightarrow> string list \<Rightarrow> nat \<Rightarrow> 'r pstate \<Rightarrow> pyerr + (nat \<times> 'r pstate)" where
  \<comment> \<open>lines 98-109\<close>
  "site_table env data n st =
     (if 0 < arr_len (pos_data st) then Inr (n, st)
      else
        (case site_loop env (drop (n + 1) data) n (pos_data st) (symbol_data st) of
           Inl e \<Rightarrow> Inl e
         | Inr (n', pos, syms) \<Rightarrow>
             (case arr_mul env (np_array pos) (alat st) of
                Inl e \<Rightarrow> Inl e
              | Inr pos' \<Rightarrow>
                  (case arr_mul env (cell_data st) (alat st) of
                     Inl e \<Rightarrow> Inl e
                   | Inr c \<Rightarrow>
                       (case ase_Atoms env syms pos' c of
                          None \<Rightarrow> Inl LibraryError
                        | Some (p, c') \<Rightarrow>
                            Inr (n', st\<lparr>pos_data := pos', symbol_data := syms,
                                       atomic_data :=
                                         Some \<lparr>symbols = syms, positions = p, cell = c'\<rparr>\<rparr>))))))"

definition site_symbols :: "'r pyenv \<Rightarrow> string list \<Rightarrow> string list" where
  \<comment> \<open>the symbols of the rows of a site table whose header is followed by the lines \<open>ls\<close>:
      the rows are the lines before the first empty one, the label is the second token\<close>
  "site_symbols env ls =
     map (\<lambda>l. normalize_symbol (chemical_symbols env) (py_split_ws l ! 1))
       (takeWhile (\<lambda>l. py_split_ws l \<noteq> []) ls)"

fun cell_loop ::
  "'r pyenv \<Rightarrow> string list \<Rightarrow> nat list \<Rightarrow> nat \<Rightarrow> 'r arr \<Rightarrow> pyerr + (bool \<times> nat \<times> 'r arr)" where
  \<comment> \<open>lines 112-116: the loop over \<open>range(3)\<close>; the flag tells that it ended without
      \<open>break\<close>, so that its \<open>else\<close> branch runs\<close>
  "cell_loop env data [] n cd = Inr (True, n, cd)"
| "cell_loop env data (i # is) n cd =
     (case get_line data (n + 1) of
        Inl e \<Rightarrow> Inl e
      | Inr l \<Rightarrow>
          (let next_line = py_split_ws l
           in if next_line = [] then Inr (False, n + 1, cd)
              else
                (case map_float env next_line of
                   Inl e \<Rightarrow> Inl e
                 | Inr vals \<Rightarrow>
                     (case arr_row_assign env cd i vals of
                        Inl e \<Rightarrow> Inl e
                      | Inr cd' \<Rightarrow> cell_loop env data is (n + 1) cd'))))"

definition cell_parameters ::
  "'r pyenv \<Rightarrow> string list \<Rightarrow> nat \<Rightarrow> 'r pstate \<Rightarrow> pyerr + (nat \<times> 'r pstate)" where
  \<comment> \<open>lines 112-121\<close>
  "cell_parameters env data n st =
     (let cur_line = data ! n
      in case cell_loop env data [0, 1, 2] n (cell_data st) of
           Inl e \<Rightarrow> Inl e
         | Inr (completed, n', cd) \<Rightarrow>
             (if \<not> completed then Inr (n', st\<lparr>cell_data := cd\<rparr>)
              else
                (let mult = (if py_in ''bohr'' cur_line then PyFloat (Bohr env)
                             else if py_in ''alat'' cur_line then alat st
                             else PyInt 1)
                 in case atomic_data st of
                      None \<Rightarrow> Inl AttributeError
                    | Some a \<Rightarrow>
                        (case arr_mul env cd mult of
                           Inl e \<Rightarrow> Inl e
                         | Inr c \<Rightarrow>
                             (case ase_set_cell env a c of
                                None \<Rightarrow> Inl LibraryError
                              | Some (c', p') \<Rightarrow>
                                  Inr (n', st\<lparr>cell_data := cd,
                                             atomic_data :=
                                               Some (a\<lparr>cell := c', positions := p'\<rparr>)\<rparr>))))))"

fun pos_loop ::
  "'r pyenv \<Rightarrow> string list \<Rightarrow> nat list \<Rightarrow> nat \<Rightarrow> 'r arr \<Rightarrow> pyerr + (nat \<times> 'r arr)" where
  \<comment> \<open>lines 125-128\<close>
  "pos_loop env data [] n pos = Inr (n, pos)"
| "pos_loop env data (i # is) n pos =
     (case get_line data (n + 1) of
        Inl e \<Rightarrow> Inl e
      | Inr l \<Rightarrow>
          (case map_float env (take 3 (drop 1 (py_split_ws l))) of
             Inl e \<Rightarrow> Inl e
           | Inr vals \<Rightarrow>
               (case arr_row_assign env pos i vals of
                  Inl e \<Rightarrow> Inl e
                | Inr pos' \<Rightarrow> pos_loop env data is (n + 1) pos')))"

definition set_positions_of ::
  "'r pyenv \<Rightarrow> 'r atoms \<Rightarrow> 'r arr \<Rightarrow> pyerr + 'r atoms" where
  "set_positions_of env a p =
     (case ase_set_positions env a p of
        None \<Rightarrow> Inl LibraryError
      | Some p' \<Rightarrow> Inr (a\<lparr>positions := p'\<rparr>))"

definition atomic_positions ::
  "'r pyenv \<Rightarrow> string list \<Rightarrow> nat \<Rightarrow> 'r pstate \<Rightarrow> pyerr + (nat \<times> 'r pstate)" where
  \<comment> \<open>lines 124-138\<close>
  "atomic_positions env data n st =
     (let cur_line = data ! n;
          coord_flag = py_strip_ws (last (py_split ''('' cur_line))
      in case pos_loop env data [0..<arr_len (pos_data st)] n (pos_data st) of
           Inl e \<Rightarrow> Inl e
         | Inr (n', pos) \<Rightarrow>
             (if \<not> atoms_truthy (atomic_data st) then Inr (n', st\<lparr>pos_data := pos\<rparr>)
              else
                (let a = the (atomic_data st);
                     new_atoms =
                       (if coord_flag = ''alat)'' then
                          (case arr_mul env pos (alat st) of
                             Inl e \<Rightarrow> Inl e | Inr p \<Rightarrow> set_positions_of env a p)
                        else if coord_flag = ''bohr)'' then
                          (case arr_mul env pos (PyFloat (Bohr env)) of
                             Inl e \<Rightarrow> Inl e | Inr p \<Rightarrow> set_positions_of env a p)
                        else if coord_flag = ''angstrom)'' then set_positions_of env a pos
                        else
                          (case ase_set_scaled_positions env a pos of
                             None \<Rightarrow> Inl LibraryError
                           | Some p' \<Rightarrow> Inr (a\<lparr>positions := p'\<rparr>)))
                 in case new_atoms of
                      Inl e \<Rightarrow> Inl e
                    | Inr a' \<Rightarrow> Inr (n', st\<lparr>pos_data := pos, atomic_data := Some a'\<rparr>))))"

definition total_energy :: "'r pyenv \<Rightarrow> string \<Rightarrow> 'r pstate \<Rightarrow> pyerr + 'r pstate" where
  \<comment> \<open>line 141\<close>
  "total_energy env cur_line st =
     (let tokens = py_split_ws cur_line
      in if length tokens < 2 then Inl IndexError
         else (case py_float env (tokens ! (length tokens - 2)) of
                 None \<Rightarrow> Inl ValueError
               | Some x \<Rightarrow> Inr (st\<lparr>info_energy := Some (fmul env x (Rydberg env))\<rparr>)))"

definition exchange_correlation :: "string \<Rightarrow> 'r pstate \<Rightarrow> 'r pstate" where
  \<comment> \<open>lines 144-165\<close>
  "exchange_correlation cur_line st =
     (if str_truthy (info_H st) then st
      else (case xc_lookup (xc_parts cur_line) of
              (h, types) \<Rightarrow> st\<lparr>info_H := Some h, info_H_types := info_H_types st @ types\<rparr>))"

definition timing_text :: "string \<Rightarrow> string" where
  \<comment> \<open>lines 170-171\<close>
  "timing_text cur_line =
     (let d = py_replace '','' [] (py_replace ''time'' [] (last (py_split ''CPU'' cur_line)))
      in py_replace '' '' [] (py_strip_ws (py_upto (py_find d ''s'' + 1) d)))"

definition timing_fmt :: "string \<Rightarrow> string" where
  \<comment> \<open>lines 169, 172, 173\<close>
  "timing_fmt d =
     (let fmt0 = ''%S.%fs'';
          fmt1 = (if py_in ''m'' d then ''%Mm'' @ fmt0 else fmt0)
      in if py_in ''h'' d then ''%Hh'' @ fmt1 else fmt1)"

definition has_wall :: "string \<Rightarrow> bool" where
  "has_wall cur_line = (py_in ''WALL'' cur_line \<or> py_in ''wall'' cur_line)"

definition timing :: "'r pyenv \<Rightarrow> string \<Rightarrow> 'r pstate \<Rightarrow> pyerr + 'r pstate" where
  \<comment> \<open>lines 168-177\<close>
  "timing env cur_line st =
     (if has_wall cur_line then
        (let d = timing_text cur_line
         in case strptime env d (timing_fmt d) of
              None \<Rightarrow> Inl ValueError
            | Some t \<Rightarrow> Inr (st\<lparr>info_duration := Some (fmt_hours env t), info_finished := 1\<rparr>))
      else Inr st)"


section \<open>The main scan\<close>

datatype rule =
  Terminated | ProgramBanner | Celldm | CrystalAxes | SiteTable | CellParameters
  | AtomicPositions | TotalEnergy | ExchangeCorrelation | Timing | NoRule

definition classify :: "string \<Rightarrow> rule" where
  \<comment> \<open>the conditions of the \<open>if\<close>/\<open>elif\<close> chain of lines 79-167, in their order\<close>
  "classify cur_line =
     (if py_in ''This run was terminated on'' cur_line then Terminated
      else if py_in ''     Program PWSCF'' cur_line \<and> py_in '' starts '' cur_line then ProgramBanner
      else if py_startswith cur_line ''     celldm'' then Celldm
      else if py_startswith cur_line ''     crystal axes:'' then CrystalAxes
      else if py_startswith cur_line ''     site n.'' then SiteTable
      else if py_in ''CELL_PARAMETERS'' cur_line then CellParameters
      else if py_in ''ATOMIC_POSITIONS'' cur_line then AtomicPositions
      else if py_startswith cur_line ''!    total energy'' then TotalEnergy
      else if py_in ''     Exchange-correlation'' cur_line then ExchangeCorrelation
      else if py_in ''PWSCF        :'' cur_line then Timing
      else NoRule)"

definition keep_index :: "nat \<Rightarrow> pyerr + 'a \<Rightarrow> pyerr + (nat \<times> 'a)" where
  \<comment> \<open>a handler that does not assign to \<open>n\<close>\<close>
  "keep_index n r = (case r of Inl e \<Rightarrow> Inl e | Inr st \<Rightarrow> Inr (n, st))"

definition step :: "'r pyenv \<Rightarrow> string list \<Rightarrow> nat \<Rightarrow> 'r pstate \<Rightarrow> pyerr + (nat \<times> 'r pstate)" where
  \<comment> \<open>the body of the loop of line 76, for \<open>n < len(self.data)\<close>\<close>
  "step env data n st =
     (let cur_line = data ! n
      in case classify cur_line of
           Terminated \<Rightarrow> Inr (n, st\<lparr>info_finished := 1\<rparr>)
         | ProgramBanner \<Rightarrow> Inr (n, program_banner cur_line st)
         | Celldm \<Rightarrow> keep_index n (celldm env cur_line st)
         | CrystalAxes \<Rightarrow> keep_index n (crystal_axes env data n st)
         | SiteTable \<Rightarrow> site_table env data n st
         | CellParameters \<Rightarrow> cell_parameters env data n st
         | AtomicPositions \<Rightarrow> atomic_positions env data n st
         | TotalEnergy \<Rightarrow> keep_index n (total_energy env cur_line st)
         | ExchangeCorrelation \<Rightarrow> Inr (n, exchange_correlation cur_line st)
         | Timing \<Rightarrow> keep_index n (timing env cur_line st)
         | NoRule \<Rightarrow> Inr (n, st))"

text \<open>
  \<open>for n in range(len(self.data))\<close> takes the next element of the range at each iteration:
  what the body assigned to \<open>n\<close> is dropped.
\<close>

fun scan :: "'r pyenv \<Rightarrow> string list \<Rightarrow> nat list \<Rightarrow> 'r pstate \<Rightarrow> pyerr + 'r pstate" where
  "scan env data [] st = Inr st"
| "scan env data (n # ns) st =
     (case step env data n st of
        Inl e \<Rightarrow> Inl e
      | Inr (n', st') \<Rightarrow> scan env data ns st')"

fun dispatched :: "'r pyenv \<Rightarrow> string list \<Rightarrow> nat list \<Rightarrow> 'r pstate \<Rightarrow> nat list" where
  \<comment> \<open>the indices whose line the \<open>if\<close>/\<open>elif\<close> chain examines, in the order of the run\<close>
  "dispatched env data [] st = []"
| "dispatched env data (n # ns) st =
     n # (case step env data n st of
            Inl e \<Rightarrow> []
          | Inr (n', st') \<Rightarrow> dispatched env data ns st')"

fun lookahead :: "'r pyenv \<Rightarrow> string list \<Rightarrow> nat list \<Rightarrow> 'r pstate \<Rightarrow> nat list" where
  \<comment> \<open>the indices that the handlers of the run read beyond the current line:
      a handler entered at \<open>n\<close> that ends with \<open>n'\<close> has read the lines \<open>n + 1, ..., n'\<close>\<close>
  "lookahead env data [] st = []"
| "lookahead env data (n # ns) st =
     (case step env data n st of
        Inl e \<Rightarrow> []
      | Inr (n', st') \<Rightarrow> [n + 1..<n' + 1] @ lookahead env data ns st')"


fun run ::
  "'r pyenv \<Rightarrow> string list \<Rightarrow> nat list \<Rightarrow> 'r pstate \<Rightarrow> (nat \<times> 'r pstate \<times> 'r pstate) list" where
  \<comment> \<open>the iterations of the loop that end without an exception: the index of the line,
      the state before the iteration and the state after it\<close>
  "run env data [] st = []"
| "run env data (n # ns) st =
     (case step env data n st of
        Inl e \<Rightarrow> []
      | Inr (n', st') \<Rightarrow> (n, st, st') # run env data ns st')"

definition sets_finished :: "string \<Rightarrow> bool" where
  \<comment> \<open>the lines on which the scan assigns \<open>info['finished']\<close> (lines 80 and 177)\<close>
  "sets_finished cur_line =
     (classify cur_line = Terminated \<or> (classify cur_line = Timing \<and> has_wall cur_line))"


section \<open>The sibling file and the whole parse\<close>

definition posix_dirname :: "string \<Rightarrow> string" where
  \<comment> \<open>\<open>os.path.dirname\<close> of \<open>posixpath\<close>\<close>
  "posix_dirname p =
     (let head = rev (dropWhile (\<lambda>c. c \<noteq> CHR ''/'') (rev p))
      in if head \<noteq> [] \<and> \<not> (\<forall>c \<in> set head. c = CHR ''/'')
         then rev (dropWhile (\<lambda>c. c = CHR ''/'') (rev head)) else head)"

definition posix_join :: "string \<Rightarrow> string \<Rightarrow> string" where
  \<comment> \<open>\<open>os.path.join\<close> of \<open>posixpath\<close>, for two arguments\<close>
  "posix_join a b =
     (if py_startswith b ''/'' then b
      else if a = [] \<or> last a = CHR ''/'' then a @ b
      else a @ ''/'' @ b)"

definition sibling_check :: "string \<Rightarrow> string" where
  \<comment> \<open>line 181: the element of the list\<close>
  "sibling_check filename =
     py_replace (''.'' @ last (py_split ''.'' filename)) [] filename @ ''.in''"

definition sibling_candidate :: "string \<Rightarrow> string" where
  \<comment> \<open>line 182: the path whose existence is tested\<close>
  "sibling_candidate filename = posix_join (posix_dirname filename) (sibling_check filename)"

definition sibling_spec :: "string \<Rightarrow> string" where
  \<comment> \<open>the candidate as the specification words it: only the final extension of the file
      name is replaced, the directory and the base name are kept\<close>
  "sibling_spec filename =
     (let dir = rev (dropWhile (\<lambda>c. c \<noteq> CHR ''/'') (rev filename));
          base = rev (takeWhile (\<lambda>c. c \<noteq> CHR ''/'') (rev filename));
          stem = (if CHR ''.'' \<in> set base
                  then butlast (rev (dropWhile (\<lambda>c. c \<noteq> CHR ''.'') (rev base))) else base)
      in dir @ stem @ ''.in'')"

definition init_state :: "'r pstate \<Rightarrow> string \<Rightarrow> 'r pstate" where
  \<comment> \<open>lines 20-27 and 74; \<open>base\<close> is the object as \<open>Output.__init__\<close> leaves it\<close>
  "init_state base filename =
     base\<lparr>related_files := related_files base @ [filename],
          info_framework := ''Quantum ESPRESSO'',
          info_finished := - 1,
          electrons_type := ''plane waves'',
          alat := PyInt 0, cell_data := PyList [], pos_data := PyList [],
          symbol_data := [], atomic_data := None\<rparr>"

definition finish :: "'r pyenv \<Rightarrow> string \<Rightarrow> 'r pstate \<Rightarrow> 'r pstate" where
  \<comment> \<open>lines 179-182\<close>
  "finish env filename st =
     (let st1 = (if atoms_truthy (atomic_data st)
                 then st\<lparr>structures := structures st @ [the (atomic_data st)]\<rparr> else st)
      in if path_exists env (sibling_candidate filename)
         then st1\<lparr>related_files := related_files st1 @ [sibling_candidate filename]\<rparr>
         else st1)"

definition parse :: "'r pyenv \<Rightarrow> 'r pstate \<Rightarrow> string \<Rightarrow> string list \<Rightarrow> pyerr + 'r pstate" where
  \<comment> \<open>\<open>QuantumESPRESSO.__init__\<close>; \<open>data\<close> is what \<open>open(filename).readlines()\<close> returns\<close>
  "parse env base filename data =
     (case scan env data [0..<length data] (init_state base filename) of
        Inl e \<Rightarrow> Inl e
      | Inr st \<Rightarrow> Inr (finish env filename st))"


section \<open>Well-formed structural blocks\<close>
















section \<open>An environment and logs for concrete runs\<close>

definition test_float :: "string \<Rightarrow> rat option" where
  \<comment> \<open>\<open>float\<close> on the numerals of the logs below; any other string is refused\<close>
  "test_float s = map_of [(''0.0'', 0), (''1.0'', 1), (''2.0'', 2), (''10.0'', 10)] s"

definition num_val :: "rat num \<Rightarrow> rat" where
  "num_val k = (case k of PyInt i \<Rightarrow> of_int i | PyFloat x \<Rightarrow> x)"

definition test_row_assign :: "rat list \<Rightarrow> rat list \<Rightarrow> rat list option" where
  \<comment> \<open>numpy's rule for \<open>row[:] = vals\<close>: the same length, or one value for the whole row\<close>
  "test_row_assign row vals =
     (if length vals = length row then Some vals
      else if length vals = 1 then Some (replicate (length row) (hd vals))
      else None)"

definition test_Atoms :: "string list \<Rightarrow> rat arr \<Rightarrow> rat arr \<Rightarrow> (rat list list \<times> rat list list) option" where
  \<comment> \<open>accepts one position for each symbol and a cell of three rows\<close>
  "test_Atoms syms pos c =
     (if length (rows_of pos) = length syms \<and> length (rows_of c) = 3
      then Some (rows_of pos, rows_of c) else None)"

definition test_strptime :: "string \<Rightarrow> string \<Rightarrow> (nat \<times> nat \<times> nat) option" where
  "test_strptime d fmt = (if d = ''0.60s'' \<and> fmt = ''%S.%fs'' then Some (0, 0, 0) else None)"

definition test_env :: "rat pyenv" where
  "test_env =
     \<lparr>py_float = test_float,
      Bohr = 52917721067 / 100000000000,
      Rydberg = 13605693 / 1000000,
      fmul = (\<lambda>x y. x * y),
      falsy = (\<lambda>x. x = 0),
      chemical_symbols =
        [''X'', ''H'', ''He'', ''Li'', ''Be'', ''B'', ''C'', ''N'', ''O'', ''F'', ''Ne'',
         ''Na'', ''Mg'', ''Al'', ''Si'', ''P'', ''S'', ''Cl'', ''Ar'', ''K'', ''Ca'',
         ''Sc'', ''Ti'', ''V'', ''Cr'', ''Mn'', ''Fe'', ''Co'', ''Ni'', ''Cu'', ''Zn''],
      np_row_mul = (\<lambda>row k. Some (map (\<lambda>x. x * num_val k) row)),
      np_row_assign = test_row_assign,
      ase_Atoms = test_Atoms,
      ase_set_cell = (\<lambda>a c. Some (rows_of c, positions a)),
      ase_set_positions = (\<lambda>a p. Some (rows_of p)),
      ase_set_scaled_positions = (\<lambda>a p. Some (rows_of p)),
      strptime = test_strptime,
      fmt_hours = (\<lambda>t. ''0.00''),
      path_exists = (\<lambda>p. False)\<rparr>"

definition test_base :: "rat pstate" where
  \<comment> \<open>Modelled from the spec: the record that \<open>Output.__init__\<close> of \<open>tilde.parsers\<close> creates
      (that class is not part of the sources); the specification has it created empty. The
      last five fields are overwritten by line 74.\<close>
  "test_base =
     \<lparr>related_files = [], structures = [], electrons_type = [], info_framework = [],
      info_finished = 0, info_prog = ''unknown version'', info_energy = None, info_H = None,
      info_H_types = [], info_duration = None,
      alat = PyInt 0, cell_data = PyList [], pos_data = PyList [], symbol_data = [],
      atomic_data = None\<rparr>"

definition with_newlines :: "string list \<Rightarrow> string list" where
  \<comment> \<open>the lines as \<open>readlines()\<close> returns them, each with its line feed\<close>
  "with_newlines ls = map (\<lambda>l. l @ [CHR 0x0A]) ls"

definition log_terminated :: "string list" where
  "log_terminated = with_newlines [''   This run was terminated on:  12:00:00   1Jan2020'']"

definition log_wall :: "string list" where
  "log_wall = with_newlines [''     PWSCF        :     0.50s CPU     0.60s WALL'']"

definition line_xc_cx :: string where
  \<comment> \<open>the descriptor is the composite-setup string of the entry \<open>vdw-df-cx\<close>\<close>
  "line_xc_cx = ''     Exchange-correlation      = sla+pw+cx13+vdW1 ( 1  4 27  1 0 0)\<newline>''"

definition line_xc_pbe :: string where
  \<comment> \<open>a descriptor without a parenthesized setup\<close>
  "line_xc_pbe = ''     Exchange-correlation      = PBE\<newline>''"

definition test_env_sibling :: "rat pyenv" where
  \<comment> \<open>a file system on which only \<open>runs/a.in\<close> exists\<close>
  "test_env_sibling = test_env\<lparr>path_exists := (\<lambda>p. p = ''runs/a.in'')\<rparr>"

definition log_axes :: "string list" where
  "log_axes =
     with_newlines
     [''     celldm(1)=   10.0  celldm(2)=    0.0'',
      ''     crystal axes: (cart. coord. in units of alat)'',
      ''   a(1) = ( 1.0 0.0 0.0 )'',
      ''   a(2) = ( 0.0 1.0 0.0 )'',
      ''   a(3) = ( 0.0 0.0 1.0 )'']"

definition log_site :: "string list" where
  \<comment> \<open>a site table whose only row carries the text of the termination banner\<close>
  "log_site =
     log_axes @
     with_newlines
     [''     site n.     atom                  positions (alat units)'',
      ''   1   Fe1  This run was terminated on ( 0.0 0.0 0.0 )'',
      '''']"


definition log_one_atom :: "string list" where
  \<comment> \<open>cell, axes and a site table of one atom\<close>
  "log_one_atom =
     log_axes @
     with_newlines
     [''     site n.     atom                  positions (alat units)'',
      ''   1   Fe1  tau(   1) = ( 0.0 0.0 0.0 )'',
      '''']"

definition log_short_cell :: "string list" where
  \<comment> \<open>the same, followed by a \<open>CELL_PARAMETERS\<close> block of one row\<close>
  "log_short_cell =
     log_one_atom @ with_newlines [''CELL_PARAMETERS (alat)'', '' 2.0 0.0 0.0'', '''']"

definition state_one_atom :: "rat pstate" where
  \<comment> \<open>the state of the scan after the lines of \<open>log_one_atom\<close>\<close>
  "state_one_atom =
     (init_state test_base ''a.out'')
       \<lparr>alat := PyFloat (10 * Bohr test_env),
        cell_data := NdArray [[1, 0, 0], [0, 1, 0], [0, 0, 1]],
        pos_data := NdArray [[0, 0, 0]],
        symbol_data := [''Fe''],
        atomic_data :=
          Some \<lparr>symbols = [''Fe''], positions = [[0, 0, 0]],
                cell = [[10 * Bohr test_env, 0, 0], [0, 10 * Bohr test_env, 0],
                        [0, 0, 10 * Bohr test_env]]\<rparr>\<rparr>"

definition log_two_tables :: "string list" where
  \<comment> \<open>an empty site table, then a site table of one row\<close>
  "log_two_tables =
     log_axes @
     with_newlines
     [''     site n.     atom                  positions (alat units)'',
      '''',
      ''     site n.     atom                  positions (alat units)'',
      ''   1   Fe1  tau(   1) = ( 0.0 0.0 0.0 )'',
      '''']"

definition log_first_table :: "string list" where
  \<comment> \<open>a site table of one row, then a second site table with another atom\<close>
  "log_first_table =
     log_axes @
     with_newlines
     [''     site n.     atom                  positions (alat units)'',
      ''   1   Fe1  tau(   1) = ( 0.0 0.0 0.0 )'',
      '''',
      ''     site n.     atom                  positions (alat units)'',
      ''   1   O  tau(   1) = ( 1.0 1.0 1.0 )'',
      '''']"



section \<open>Theorems\<close>

lemma py_startswith_iff: "py_startswith s p \<longleftrightarrow> (\<exists>v. s = p @ v)"
  by (induction s p rule: py_startswith.induct) auto

lemma py_in_iff: "py_in sub s \<longleftrightarrow> (\<exists>u v. s = u @ sub @ v)"
proof (induction s)
  case Nil
  then show ?case by auto
next
  case (Cons c cs)
  show ?case
  proof
    assume "py_in sub (c # cs)"
    then consider "py_startswith (c # cs) sub" | "py_in sub cs" by auto
    then show "\<exists>u v. c # cs = u @ sub @ v"
    proof cases
      case 1
      then obtain v where "c # cs = sub @ v" using py_startswith_iff by blast
      then have "c # cs = [] @ sub @ v" by simp
      then show ?thesis by blast
    next
      case 2
      then obtain u v where "cs = u @ sub @ v" using Cons.IH by blast
      then have "c # cs = (c # u) @ sub @ v" by simp
      then show ?thesis by blast
    qed
  next
    assume "\<exists>u v. c # cs = u @ sub @ v"
    then obtain u v where uv: "c # cs = u @ sub @ v" by blast
    show "py_in sub (c # cs)"
    proof (cases u)
      case Nil
      with uv have "py_startswith (c # cs) sub" using py_startswith_iff by auto
      then show ?thesis by simp
    next
      case (Cons a u')
      with uv have "cs = u' @ sub @ v" by simp
      then have "py_in sub cs" using Cons.IH by blast
      then show ?thesis by simp
    qed
  qed
qed

subsection \<open>The format detector\<close>

lemma py_lower_append: "py_lower (u @ v) = py_lower u @ py_lower v"
  by (simp add: py_lower_def)

lemma fingerprints_imp_spec: "fingerprints s \<Longrightarrow> fingerprints_spec s"
proof -
  assume f: "fingerprints s"
  then have m: "py_in ''     Current dimensions of program '' s"
    by (simp add: fingerprints_def split: if_splits)
  from f have "py_in ''pwscf'' s \<or> py_in ''PWSCF'' s"
    by (simp add: fingerprints_def split: if_splits)
  then have "\<exists>w u v. (w = ''pwscf'' \<or> w = ''PWSCF'') \<and> s = u @ w @ v"
    unfolding py_in_iff by blast
  then obtain w u v where w: "w = ''pwscf'' \<or> w = ''PWSCF''" and s: "s = u @ w @ v"
    by blast
  from w have "py_lower w = ''pwscf''"
    by (auto simp: py_lower_def lower_char_def)
  with s have "py_lower s = py_lower u @ ''pwscf'' @ py_lower v"
    by (simp add: py_lower_append)
  then have "py_in ''pwscf'' (py_lower s)" unfolding py_in_iff by blast
  with m show ?thesis by (simp add: fingerprints_spec_def)
qed

text \<open>
  C5, as the code has it. The detector is a total function to \<open>bool\<close>: it returns a truth
  value for every sample, of any length. It returns true exactly when the sample contains
  \<open>pwscf\<close> or \<open>PWSCF\<close>, in one of these two spellings, and the marker
  \<open>"     Current dimensions of program "\<close>. Whenever it returns true, the
  case-insensitive condition of the specification holds as well; the converse fails, see the
  counterexample below.
\<close>

theorem fingerprints_two_spellings:
  "(fingerprints s \<longleftrightarrow>
      ((\<exists>u v. s = u @ ''pwscf'' @ v) \<or> (\<exists>u v. s = u @ ''PWSCF'' @ v))
      \<and> (\<exists>u v. s = u @ ''     Current dimensions of program '' @ v))
   \<and> (fingerprints s \<longrightarrow> fingerprints_spec s)"
proof -
  have "fingerprints s \<longleftrightarrow>
      ((\<exists>u v. s = u @ ''pwscf'' @ v) \<or> (\<exists>u v. s = u @ ''PWSCF'' @ v))
      \<and> (\<exists>u v. s = u @ ''     Current dimensions of program '' @ v)"
    unfolding fingerprints_def py_in_iff by simp
  then show ?thesis using fingerprints_imp_spec by blast
qed

theorem fingerprints_two_spellings_witness:
  "fingerprints ''PWSCF     Current dimensions of program ''
   \<and> fingerprints_spec ''PWSCF     Current dimensions of program ''"
proof -
  have f: "fingerprints ''PWSCF     Current dimensions of program ''"
    by (simp add: fingerprints_def)
  with fingerprints_two_spellings [of "''PWSCF     Current dimensions of program ''"]
  show ?thesis by blast
qed

text \<open>
  C5 as stated fails: a sample with the program token in mixed case and the marker satisfies
  the case-insensitive condition, and the detector returns false.
\<close>

theorem fingerprints_mixed_case_counterexample:
  "fingerprints_spec ''Pwscf     Current dimensions of program ''
   \<and> \<not> fingerprints ''Pwscf     Current dimensions of program ''"
  by (simp add: fingerprints_def fingerprints_spec_def py_lower_def lower_char_def)

subsection \<open>Atom labels\<close>

lemma hd_py_split_from:
  "hd (py_split_from [c] 0 cur s) = cur @ takeWhile (\<lambda>x. x \<noteq> c) s"
  by (induction s arbitrary: cur) auto

lemma hd_py_split: "hd (py_split [c] s) = takeWhile (\<lambda>x. x \<noteq> c) s"
  by (simp add: py_split_def hd_py_split_from)

text \<open>
  C7, as the code has it. \<open>strip('0123456789')\<close> removes digits at both ends of the label:
  the stored symbol is what the normalisation of the specification (trailing digits stripped,
  the text from the first underscore on dropped, the last character dropped when the result is
  not a chemical symbol and is longer than one character) gives on the label without its
  leading digits. When \<open>Fe\<close> is a chemical symbol, the label \<open>Fe1\<close> gives \<open>Fe\<close>.
\<close>

theorem normalize_symbol_strips_both_ends:
  "normalize_symbol syms label =
     normalize_symbol_spec syms (dropWhile (\<lambda>c. c \<in> set ''0123456789'') label)
   \<and> (''Fe'' \<in> set syms \<longrightarrow> normalize_symbol syms ''Fe1'' = ''Fe'')"
proof -
  have a: "normalize_symbol syms label =
     normalize_symbol_spec syms (dropWhile (\<lambda>c. c \<in> set ''0123456789'') label)"
    unfolding normalize_symbol_def normalize_symbol_spec_def py_strip_def hd_py_split Let_def
    by (rule refl)
  have b: "hd (py_split ''_'' (py_strip ''0123456789'' ''Fe1'')) = ''Fe''"
    unfolding hd_py_split py_strip_def by simp
  have "''Fe'' \<in> set syms \<longrightarrow> normalize_symbol syms ''Fe1'' = ''Fe''"
    unfolding normalize_symbol_def b Let_def by simp
  with a show ?thesis by blast
qed

theorem normalize_symbol_strips_both_ends_witness:
  "''Fe'' \<in> set (chemical_symbols test_env)
   \<and> normalize_symbol (chemical_symbols test_env) ''Fe1'' = ''Fe''"
proof -
  have m: "''Fe'' \<in> set (chemical_symbols test_env)" by (simp add: test_env_def)
  with normalize_symbol_strips_both_ends [of "chemical_symbols test_env" "''Fe1''"]
  show ?thesis by blast
qed

text \<open>
  C7 as stated fails on a label that starts with a digit: the code turns \<open>1H\<close> into \<open>H\<close>,
  stripping trailing digits only gives \<open>1\<close>.
\<close>

theorem normalize_symbol_leading_digit_counterexample:
  "normalize_symbol (chemical_symbols test_env) ''1H'' = ''H''
   \<and> normalize_symbol_spec (chemical_symbols test_env) ''1H'' = ''1''"
proof -
  have a: "hd (py_split ''_'' (py_strip ''0123456789'' ''1H'')) = ''H''"
    unfolding hd_py_split py_strip_def by simp
  have b: "''1H'' \<notin> set (chemical_symbols test_env)" by (simp add: test_env_def)
  have "normalize_symbol (chemical_symbols test_env) ''1H'' = ''H''"
    unfolding normalize_symbol_def a Let_def by simp
  moreover have "normalize_symbol_spec (chemical_symbols test_env) ''1H'' = ''1''"
    using b unfolding normalize_symbol_spec_def Let_def by simp
  ultimately show ?thesis by blast
qed

subsection \<open>The exchange-correlation descriptor\<close>

lemma py_find_absent: "c \<notin> set s \<Longrightarrow> py_find s [c] = - 1"
  by (induction s) auto

lemma py_upto_minus_one: "py_upto (- 1) s = butlast s"
  by (simp add: py_upto_def butlast_conv_take)

lemma set_py_strip_ws: "set (py_strip_ws s) \<subseteq> set s"
proof -
  have "set (py_strip_ws s) \<subseteq> set (dropWhile is_space s)"
    unfolding py_strip_ws_def using set_dropWhileD by fastforce
  also have "\<dots> \<subseteq> set s" using set_dropWhileD by fastforce
  finally show ?thesis .
qed

lemma xc_descriptor_no_paren:
  assumes "CHR ''('' \<notin> set (last (py_split ''='' cur_line))"
  shows "xc_descriptor cur_line = butlast (xc_str cur_line)"
proof -
  have "CHR ''('' \<notin> set (xc_str cur_line)"
    using assms set_py_strip_ws unfolding xc_str_def by blast
  then have "py_find (xc_str cur_line) ''('' = - 1" by (rule py_find_absent)
  then show ?thesis by (simp add: xc_descriptor_def py_upto_minus_one)
qed

lemma xc_pbe_str: "xc_str line_xc_pbe = ''PBE''"
  by (simp add: xc_str_def line_xc_pbe_def py_split_def py_strip_ws_def is_space_def)

lemma xc_pbe_descriptor: "xc_descriptor line_xc_pbe = ''PB''"
  by (simp add: xc_descriptor_def xc_pbe_str py_upto_def)

lemma xc_pbe_parts: "xc_parts line_xc_pbe = [''pb'']"
  by (simp add: xc_parts_def xc_pbe_descriptor py_split_ws_def py_split_def is_space_def
      py_lower_def lower_char_def py_strip_def)

lemma xc_pbe_lookup: "xc_lookup [''pb''] = (''pb'', [])"
  by (simp add: xc_lookup_def xc_internal_map_def)

lemma classify_xc_pbe: "classify line_xc_pbe = ExchangeCorrelation"
  by (simp add: classify_def line_xc_pbe_def)

lemma parse_xc_pbe:
  "map_sum id info_H (parse test_env test_base ''a.out'' [line_xc_pbe]) = Inr (Some ''pb'')"
  by (simp add: parse_def step_def classify_xc_pbe exchange_correlation_def xc_pbe_parts
      xc_pbe_lookup init_state_def test_base_def str_truthy_def finish_def atoms_truthy_def
      test_env_def Let_def)

text \<open>
  C10. When the text after the last \<open>=\<close> of an exchange-correlation line holds no \<open>(\<close>,
  \<open>find\<close> returns -1 and the slice that is tokenized is the descriptor without its last
  character. For the line \<open>"     Exchange-correlation      = PBE"\<close> the descriptor is
  \<open>PBE\<close>, the tokenized text is \<open>PB\<close>, and the parse stores the name \<open>pb\<close>.
\<close>

theorem xc_descriptor_drops_last_char:
  "(CHR ''('' \<notin> set (last (py_split ''='' cur_line))
      \<longrightarrow> xc_descriptor cur_line = butlast (xc_str cur_line))
   \<and> xc_str line_xc_pbe = ''PBE''
   \<and> xc_descriptor line_xc_pbe = ''PB''
   \<and> map_sum id info_H (parse test_env test_base ''a.out'' [line_xc_pbe]) = Inr (Some ''pb'')"
  using xc_descriptor_no_paren xc_pbe_str xc_pbe_descriptor parse_xc_pbe by blast

theorem xc_descriptor_drops_last_char_witness:
  "CHR ''('' \<notin> set (last (py_split ''='' line_xc_pbe))
   \<and> xc_descriptor line_xc_pbe = butlast (xc_str line_xc_pbe)"
proof -
  have h: "CHR ''('' \<notin> set (last (py_split ''='' line_xc_pbe))"
    by (simp add: line_xc_pbe_def py_split_def)
  with xc_descriptor_drops_last_char [of line_xc_pbe] show ?thesis by blast
qed

subsection \<open>The composite-setup strings of the lookup table\<close>

lemma xc_cx_str: "xc_str line_xc_cx = ''sla+pw+cx13+vdW1 ( 1  4 27  1 0 0)''"
  by (simp add: xc_str_def line_xc_cx_def py_split_def py_strip_ws_def is_space_def)

lemma xc_cx_descriptor: "xc_descriptor line_xc_cx = ''sla+pw+cx13+vdW1 ''"
  by (simp add: xc_descriptor_def xc_cx_str py_upto_def)

lemma xc_cx_parts: "xc_parts line_xc_cx = [''sla'', ''pw'', ''cx13'', ''vdw1'']"
  by (simp add: xc_parts_def xc_cx_descriptor py_split_ws_def py_split_def is_space_def
      py_lower_def lower_char_def py_strip_def)

lemma xc_cx_lookup:
  "xc_lookup [''sla'', ''pw'', ''cx13'', ''vdw1''] = (''sla+pw+cx13+vdw1'', [])"
  by (simp add: xc_lookup_def xc_values_def xc_internal_map_def)

lemma classify_xc_cx: "classify line_xc_cx = ExchangeCorrelation"
  by (simp add: classify_def line_xc_cx_def)

lemma scan_xc_cx:
  "scan test_env [line_xc_cx] [0..<length [line_xc_cx]] (init_state test_base ''a.out'') =
     Inr ((init_state test_base ''a.out'')\<lparr>info_H := Some ''sla+pw+cx13+vdw1''\<rparr>)"
  by (simp add: step_def classify_xc_cx exchange_correlation_def xc_cx_parts
      xc_cx_lookup init_state_def test_base_def str_truthy_def Let_def)

text \<open>
  Every other composite-setup string of the table, put before a parenthesis on an
  exchange-correlation line, gives the name and the tags of its entry; the order in which
  the values of the dictionary are searched is of no import, since the two entries that share
  their setup strings (\<open>gaupbe\<close> and \<open>gaup\<close>) have the same name and tags.
\<close>

lemma xc_other_setups_recognized:
  "list_all (\<lambda>e. list_all (\<lambda>s. s = ''sla+pw+cx13+vdW1'' \<or>
       xc_lookup (xc_parts (''     Exchange-correlation      = '' @ s @ '' ( 1 4 3 4 0 0)\<newline>''))
         = (xc_name e, xc_type e)) (xc_setup e)) xc_values"
  by code_simp

lemma xc_shared_setups_agree:
  "list_all (\<lambda>e. list_all (\<lambda>e'. list_all (\<lambda>s. s \<notin> set (xc_setup e')
       \<or> (xc_name e = xc_name e' \<and> xc_type e = xc_type e')) (xc_setup e)) xc_values) xc_values"
  by code_simp

text \<open>
  C4 at the entry \<open>vdw-df-cx\<close>. Its composite-setup string \<open>sla+pw+cx13+vdW1\<close> holds a
  capital letter, and the tokens of the descriptor are put in lower case before the search
  (line 150): the search finds no entry, the parse stores the lower-case descriptor as the
  name and no tag, where the entry has the name \<open>vdW-DF-cx\<close> and the tags \<open>GGA\<close>, \<open>vdW\<close>.
\<close>

theorem xc_vdw_df_cx_unrecognized:
  "map_of xc_internal_map ''vdw-df-cx'' =
     Some \<lparr>xc_name = ''vdW-DF-cx'', xc_type = [''GGA'', ''vdW''],
           xc_setup = [''sla+pw+cx13+vdW1'']\<rparr>
   \<and> xc_descriptor line_xc_cx = ''sla+pw+cx13+vdW1 ''
   \<and> map_sum id info_H (parse test_env test_base ''a.out'' [line_xc_cx])
       = Inr (Some ''sla+pw+cx13+vdw1'')
   \<and> map_sum id info_H_types (parse test_env test_base ''a.out'' [line_xc_cx]) = Inr []"
proof -
  have a: "map_of xc_internal_map ''vdw-df-cx'' =
     Some \<lparr>xc_name = ''vdW-DF-cx'', xc_type = [''GGA'', ''vdW''],
           xc_setup = [''sla+pw+cx13+vdW1'']\<rparr>"
    by (simp add: xc_internal_map_def)
  have b: "map_sum id info_H (parse test_env test_base ''a.out'' [line_xc_cx])
       = Inr (Some ''sla+pw+cx13+vdw1'')"
    unfolding parse_def scan_xc_cx
    by (simp add: finish_def atoms_truthy_def init_state_def test_env_def Let_def)
  have c: "map_sum id info_H_types (parse test_env test_base ''a.out'' [line_xc_cx]) = Inr []"
    unfolding parse_def scan_xc_cx
    by (simp add: finish_def atoms_truthy_def init_state_def test_env_def test_base_def Let_def)
  from a b c xc_cx_descriptor show ?thesis by blast
qed

subsection \<open>The sibling file\<close>

lemma sibling_rel: "sibling_candidate ''runs/a.out'' = ''runs/runs/a.in''"
  by (simp add: sibling_candidate_def sibling_check_def posix_dirname_def posix_join_def
      py_split_def py_replace_def Let_def)

lemma sibling_rel_spec: "sibling_spec ''runs/a.out'' = ''runs/a.in''"
  by (simp add: sibling_spec_def Let_def)

lemma sibling_dot: "sibling_candidate ''/data/si.out/si.out'' = ''/data/si/si.in''"
  by (simp add: sibling_candidate_def sibling_check_def posix_dirname_def posix_join_def
      py_split_def py_replace_def Let_def)

lemma sibling_dot_spec: "sibling_spec ''/data/si.out/si.out'' = ''/data/si.out/si.in''"
  by (simp add: sibling_spec_def Let_def)

lemma parse_sibling:
  "map_sum id related_files (parse test_env_sibling test_base ''runs/a.out'' [])
     = Inr [''runs/a.out'']"
  by (simp add: parse_def finish_def sibling_rel atoms_truthy_def init_state_def
      test_env_sibling_def test_env_def test_base_def Let_def)

text \<open>
  C8 at two paths. For the relative path \<open>runs/a.out\<close> the name built on line 181 is
  \<open>runs/a.in\<close>, and line 182 joins it to the folder \<open>runs\<close> again: the path tested is
  \<open>runs/runs/a.in\<close>, so that the sibling \<open>runs/a.in\<close>, present on disk, is not added to
  \<open>related_files\<close>. For \<open>/data/si.out/si.out\<close> the call of \<open>replace\<close> removes the
  extension from the folder name as well: the path tested is \<open>/data/si/si.in\<close>, in another
  directory.
\<close>

theorem sibling_candidate_wrong_path:
  "sibling_candidate ''runs/a.out'' = ''runs/runs/a.in''
   \<and> sibling_spec ''runs/a.out'' = ''runs/a.in''
   \<and> map_sum id related_files (parse test_env_sibling test_base ''runs/a.out'' [])
       = Inr [''runs/a.out'']
   \<and> sibling_candidate ''/data/si.out/si.out'' = ''/data/si/si.in''
   \<and> sibling_spec ''/data/si.out/si.out'' = ''/data/si.out/si.in''"
  using sibling_rel sibling_rel_spec parse_sibling sibling_dot sibling_dot_spec by blast

subsection \<open>What each handler changes\<close>

lemma celldm_shape:
  "celldm env l st = Inr st' \<Longrightarrow> st' = st \<or> (\<exists>a. st' = st\<lparr>alat := a\<rparr>)"
  by (auto simp: celldm_def Let_def split: if_splits option.splits)

lemma crystal_axes_shape:
  "crystal_axes env data n st = Inr st' \<Longrightarrow> \<exists>c. st' = st\<lparr>cell_data := c\<rparr>"
  by (auto simp: crystal_axes_def Let_def split: sum.splits)

lemma site_table_shape:
  "site_table env data n st = Inr (n', st') \<Longrightarrow>
     st' = st \<or> (\<exists>p s a. st' = st\<lparr>pos_data := p, symbol_data := s, atomic_data := a\<rparr>)"
  by (auto simp: site_table_def split: if_splits sum.splits option.splits prod.splits)

lemma cell_parameters_shape:
  "cell_parameters env data n st = Inr (n', st') \<Longrightarrow>
     st' = st \<or> (\<exists>c. st' = st\<lparr>cell_data := c\<rparr>)
     \<or> (\<exists>c a. st' = st\<lparr>cell_data := c, atomic_data := a\<rparr>)"
  by (auto simp: cell_parameters_def Let_def split: if_splits sum.splits option.splits prod.splits)

lemma atomic_positions_shape:
  "atomic_positions env data n st = Inr (n', st') \<Longrightarrow>
     st' = st \<or> (\<exists>p. st' = st\<lparr>pos_data := p\<rparr>)
     \<or> (\<exists>p a. st' = st\<lparr>pos_data := p, atomic_data := a\<rparr>)"
  by (auto simp: atomic_positions_def Let_def split: if_splits sum.splits option.splits prod.splits)

lemma total_energy_shape:
  "total_energy env l st = Inr st' \<Longrightarrow> \<exists>e. st' = st\<lparr>info_energy := Some e\<rparr>"
  by (auto simp: total_energy_def Let_def split: if_splits option.splits)

lemma timing_shape:
  "timing env l st = Inr st' \<Longrightarrow>
     (has_wall l \<and> (\<exists>d. st' = st\<lparr>info_duration := d, info_finished := 1\<rparr>))
     \<or> (\<not> has_wall l \<and> st' = st)"
  by (auto simp: timing_def Let_def split: if_splits option.splits)

lemma exchange_correlation_shape:
  "exchange_correlation l st = st \<or>
     (\<exists>h t. exchange_correlation l st = st\<lparr>info_H := h, info_H_types := t\<rparr>)"
  by (auto simp: exchange_correlation_def split: prod.splits)

lemma program_banner_shape: "\<exists>p. program_banner l st = st\<lparr>info_prog := p\<rparr>"
  by (auto simp: program_banner_def Let_def)

lemma step_shape:
  assumes "step env data n st = Inr (n', st')"
  shows "case classify (data ! n) of
           Terminated \<Rightarrow> st' = st\<lparr>info_finished := 1\<rparr>
         | ProgramBanner \<Rightarrow> \<exists>p. st' = st\<lparr>info_prog := p\<rparr>
         | Celldm \<Rightarrow> st' = st \<or> (\<exists>a. st' = st\<lparr>alat := a\<rparr>)
         | CrystalAxes \<Rightarrow> \<exists>c. st' = st\<lparr>cell_data := c\<rparr>
         | SiteTable \<Rightarrow>
             st' = st
             \<or> (\<exists>p s a. st' = st\<lparr>pos_data := p, symbol_data := s, atomic_data := a\<rparr>)
         | CellParameters \<Rightarrow>
             st' = st \<or> (\<exists>c. st' = st\<lparr>cell_data := c\<rparr>)
             \<or> (\<exists>c a. st' = st\<lparr>cell_data := c, atomic_data := a\<rparr>)
         | AtomicPositions \<Rightarrow>
             st' = st \<or> (\<exists>p. st' = st\<lparr>pos_data := p\<rparr>)
             \<or> (\<exists>p a. st' = st\<lparr>pos_data := p, atomic_data := a\<rparr>)
         | TotalEnergy \<Rightarrow> \<exists>e. st' = st\<lparr>info_energy := Some e\<rparr>
         | ExchangeCorrelation \<Rightarrow>
             st' = st \<or> (\<exists>h t. st' = st\<lparr>info_H := h, info_H_types := t\<rparr>)
         | Timing \<Rightarrow>
             (has_wall (data ! n) \<and> (\<exists>d. st' = st\<lparr>info_duration := d, info_finished := 1\<rparr>))
             \<or> (\<not> has_wall (data ! n) \<and> st' = st)
         | NoRule \<Rightarrow> st' = st"
proof (cases "classify (data ! n)")
  case Terminated
  with assms show ?thesis by (auto simp: step_def)
next
  case ProgramBanner
  with assms program_banner_shape [of "data ! n" st] show ?thesis by (auto simp: step_def)
next
  case Celldm
  with assms show ?thesis
    by (auto simp: step_def keep_index_def split: sum.splits dest!: celldm_shape)
next
  case CrystalAxes
  with assms show ?thesis
    by (auto simp: step_def keep_index_def split: sum.splits dest!: crystal_axes_shape)
next
  case SiteTable
  with assms site_table_shape [of env data n st n' st'] show ?thesis by (simp add: step_def)
next
  case CellParameters
  with assms cell_parameters_shape [of env data n st n' st'] show ?thesis
    by (simp add: step_def)
next
  case AtomicPositions
  with assms atomic_positions_shape [of env data n st n' st'] show ?thesis
    by (simp add: step_def)
next
  case TotalEnergy
  with assms show ?thesis
    by (auto simp: step_def keep_index_def split: sum.splits dest!: total_energy_shape)
next
  case ExchangeCorrelation
  with assms exchange_correlation_shape [of "data ! n" st] show ?thesis
    by (auto simp: step_def)
next
  case Timing
  with assms show ?thesis
    by (auto simp: step_def keep_index_def split: sum.splits dest!: timing_shape)
next
  case NoRule
  with assms show ?thesis by (auto simp: step_def)
qed

lemma finish_info:
  "info_finished (finish env fn st) = info_finished st
   \<and> info_energy (finish env fn st) = info_energy st
   \<and> info_H (finish env fn st) = info_H st
   \<and> info_H_types (finish env fn st) = info_H_types st
   \<and> info_duration (finish env fn st) = info_duration st
   \<and> cell_data (finish env fn st) = cell_data st"
  by (simp add: finish_def Let_def)

lemma init_state_info:
  "info_finished (init_state base fn) = - 1
   \<and> info_energy (init_state base fn) = info_energy base
   \<and> info_H (init_state base fn) = info_H base
   \<and> info_H_types (init_state base fn) = info_H_types base
   \<and> info_duration (init_state base fn) = info_duration base"
  by (simp add: init_state_def)

lemma set_upt_nth: "(\<exists>n \<in> set [0..<length xs]. P (xs ! n)) \<longleftrightarrow> (\<exists>x \<in> set xs. P x)"
proof
  assume "\<exists>n \<in> set [0..<length xs]. P (xs ! n)"
  then obtain n where "n < length xs" "P (xs ! n)" by auto
  then show "\<exists>x \<in> set xs. P x" using nth_mem by blast
next
  assume "\<exists>x \<in> set xs. P x"
  then obtain x where x: "x \<in> set xs" "P x" by blast
  then obtain i where "i < length xs" "xs ! i = x" by (auto simp: in_set_conv_nth)
  with x show "\<exists>n \<in> set [0..<length xs]. P (xs ! n)" by auto
qed

lemma all_upt_nth: "(\<forall>n \<in> set [0..<length xs]. P (xs ! n)) \<longleftrightarrow> (\<forall>x \<in> set xs. P x)"
  using set_upt_nth [of xs "\<lambda>x. \<not> P x"] by blast

subsection \<open>The finished flag\<close>

lemma step_finished:
  assumes "step env data n st = Inr (n', st')"
  shows "info_finished st' = (if sets_finished (data ! n) then 1 else info_finished st)"
  using step_shape [OF assms]
  by (cases "classify (data ! n)") (auto simp: sets_finished_def)

lemma scan_finished:
  "scan env data ns st = Inr st' \<Longrightarrow>
     info_finished st' = (if \<exists>n \<in> set ns. sets_finished (data ! n) then 1 else info_finished st)"
proof (induction ns arbitrary: st)
  case Nil
  then show ?case by simp
next
  case (Cons n ns)
  from Cons.prems obtain n' st1 where s: "step env data n st = Inr (n', st1)"
    and r: "scan env data ns st1 = Inr st'"
    by (auto split: sum.splits)
  from Cons.IH [OF r] step_finished [OF s] show ?case by auto
qed

lemma parse_terminated_finished:
  "map_sum id info_finished (parse test_env test_base ''a.out'' log_terminated) = Inr 1"
  by code_simp

lemma parse_wall_finished:
  "map_sum id info_finished (parse test_env test_base ''a.out'' log_wall) = Inr 1"
  by code_simp

text \<open>
  C2, as the code has it. The flag has two values in a parse that completes: it is set to -1
  before the scan (line 26) and to 1 both by a line with the termination banner (line 80)
  and by a timing line with a wall-clock marker whose time is parsed (line 177); nothing sets
  it back. So it is 1 exactly when the log holds such a line, and -1 otherwise.
\<close>

theorem finished_flag_two_valued:
  assumes "parse env base fn data = Inr r"
  shows "info_finished r = (if \<exists>l \<in> set data. sets_finished l then 1 else - 1)"
proof -
  from assms obtain st where s: "scan env data [0..<length data] (init_state base fn) = Inr st"
    and r: "r = finish env fn st"
    by (auto simp: parse_def split: sum.splits)
  from scan_finished [OF s] have
    "info_finished st = (if \<exists>l \<in> set data. sets_finished l then 1 else - 1)"
    unfolding set_upt_nth by (simp add: init_state_info)
  with r show ?thesis by (simp add: finish_info)
qed

theorem finished_flag_two_valued_witness:
  "\<exists>r. parse test_env test_base ''a.out'' log_terminated = Inr r \<and> info_finished r = 1"
proof -
  obtain r where p: "parse test_env test_base ''a.out'' log_terminated = Inr r"
    using parse_terminated_finished
    by (cases "parse test_env test_base ''a.out'' log_terminated") auto
  have "\<exists>l \<in> set log_terminated. sets_finished l" by code_simp
  with finished_flag_two_valued [OF p] have "info_finished r = 1" by simp
  with p show ?thesis by blast
qed

text \<open>
  C2 as stated fails: the termination banner and the wall-clock banner write the same value.
  A log that holds only a termination banner and a log that holds only a wall-clock banner
  both end with the flag equal to 1, so no value tells "terminated" from "finished".
\<close>

theorem finished_flag_same_value_counterexample:
  "map_sum id info_finished (parse test_env test_base ''a.out'' log_terminated) = Inr 1
   \<and> map_sum id info_finished (parse test_env test_base ''a.out'' log_wall) = Inr 1"
  using parse_terminated_finished parse_wall_finished by blast

subsection \<open>The main scan index\<close>

lemma dispatched_complete:
  "scan env data ns st = Inr st' \<Longrightarrow> dispatched env data ns st = ns"
  by (induction ns arbitrary: st) (auto split: sum.splits)

lemma dispatched_take:
  "dispatched env data ns st = take (length (dispatched env data ns st)) ns"
  by (induction ns arbitrary: st) (auto split: sum.splits)

lemma dispatched_site:
  "dispatched test_env log_site [0..<length log_site] (init_state test_base ''a.out'')
     = [0, 1, 2, 3, 4, 5, 6, 7]"
  by code_simp

lemma lookahead_site:
  "lookahead test_env log_site [0..<length log_site] (init_state test_base ''a.out'') = [6, 7]"
  by code_simp

lemma parse_site_finished:
  "map_sum id info_finished (parse test_env test_base ''a.out'' log_site) = Inr 1"
  by code_simp

lemma scan_site_finished:
  "map_sum id info_finished
     (scan test_env log_site [0..<length log_site] (init_state test_base ''a.out'')) = Inr 1"
  by code_simp

text \<open>
  C3, as the code has it. The main loop takes its index from \<open>range(len(self.data))\<close>:
  the indices examined by the chain of patterns are distinct, they are indices of the file,
  and in a run that completes they are all the indices of the file in their order, whatever
  the handlers read ahead. A line that a block handler has read as lookahead is therefore
  examined by the chain of patterns as well, when its index comes.
\<close>

theorem dispatch_every_index_once:
  "distinct (dispatched env data [0..<length data] st)
   \<and> set (dispatched env data [0..<length data] st) \<subseteq> {..<length data}
   \<and> (\<forall>st'. scan env data [0..<length data] st = Inr st'
         \<longrightarrow> dispatched env data [0..<length data] st = [0..<length data])"
proof -
  have t: "dispatched env data [0..<length data] st
             = take (length (dispatched env data [0..<length data] st)) [0..<length data]"
    by (rule dispatched_take)
  have "distinct (take (length (dispatched env data [0..<length data] st)) [0..<length data])"
    by (rule distinct_take) simp
  with t have d: "distinct (dispatched env data [0..<length data] st)" by simp
  have "set (take (length (dispatched env data [0..<length data] st)) [0..<length data])
          \<subseteq> set [0..<length data]"
    by (rule set_take_subset)
  with t have s: "set (dispatched env data [0..<length data] st) \<subseteq> {..<length data}"
    by auto
  from d s dispatched_complete show ?thesis by blast
qed

theorem dispatch_every_index_once_witness:
  "(\<exists>st'. scan test_env log_site [0..<length log_site] (init_state test_base ''a.out'')
             = Inr st')
   \<and> dispatched test_env log_site [0..<length log_site] (init_state test_base ''a.out'')
       = [0..<length log_site]"
proof -
  obtain st' where
    s: "scan test_env log_site [0..<length log_site] (init_state test_base ''a.out'') = Inr st'"
    using scan_site_finished
    by (cases "scan test_env log_site [0..<length log_site] (init_state test_base ''a.out'')")
      auto
  with dispatch_every_index_once
    [of test_env log_site "init_state test_base ''a.out''"]
  show ?thesis by blast
qed

text \<open>
  C3 as stated fails. In the log \<open>log_site\<close> the handler of the site table, entered at
  index 5, reads the lines 6 and 7 as lookahead; both are examined by the chain of patterns
  afterwards, and line 6, a row of the table that carries the text of the termination
  banner, sets the finished flag to 1.
\<close>

theorem lookahead_lines_dispatched_counterexample:
  "lookahead test_env log_site [0..<length log_site] (init_state test_base ''a.out'') = [6, 7]
   \<and> dispatched test_env log_site [0..<length log_site] (init_state test_base ''a.out'')
       = [0, 1, 2, 3, 4, 5, 6, 7]
   \<and> map_sum id info_finished (parse test_env test_base ''a.out'' log_site) = Inr 1"
  using lookahead_site dispatched_site parse_site_finished by blast

subsection \<open>The cell-parameters block\<close>

lemma arr_row_assign_rows:
  "arr_row_assign env cd i vals = Inr cd1 \<Longrightarrow>
     length (rows_of cd1) = length (rows_of cd)
     \<and> (\<forall>j. j \<noteq> i \<longrightarrow> rows_of cd1 ! j = rows_of cd ! j)"
  by (auto simp: arr_row_assign_def rows_of_def split: arr.splits if_splits option.splits)








lemma scan_one_atom:
  "scan test_env log_short_cell [0..<8] (init_state test_base ''a.out'')
     = Inr state_one_atom"
  by code_simp

lemma short_cell_header: "classify (log_short_cell ! 8) = CellParameters"
  by code_simp






subsection \<open>The first site table\<close>

lemma those_length: "those xs = Some ys \<Longrightarrow> length ys = length xs"
  by (induction xs arbitrary: ys) (auto split: option.splits)

lemma arr_mul_ndarray:
  "arr_mul env (NdArray rows) k = Inr p \<Longrightarrow>
     \<exists>rows'. p = NdArray rows' \<and> length rows' = length rows"
  by (auto simp: arr_mul_def split: option.splits dest: those_length)

lemma arr_mul_ndarray_len: "arr_mul env (NdArray rows) k = Inr p \<Longrightarrow> arr_len p = length rows"
  by (auto simp: arr_len_def rows_of_def dest: arr_mul_ndarray)

lemma site_loop_symbols:
  "site_loop env ls n (PyList rows) syms = Inr (n', pos, syms') \<Longrightarrow>
     syms' = syms @ site_symbols env ls
     \<and> arr_len pos = length rows + length (site_symbols env ls)"
proof (induction ls arbitrary: n rows syms)
  case Nil
  then show ?case by simp
next
  case (Cons l ls)
  show ?case
  proof (cases "py_split_ws l = []")
    case True
    with Cons.prems show ?thesis
      by (auto simp: site_symbols_def arr_len_def rows_of_def)
  next
    case False
    with Cons.prems obtain vals where
      r: "site_loop env ls (n + 1) (PyList (rows @ [vals]))
            (syms @ [normalize_symbol (chemical_symbols env) (py_split_ws l ! 1)])
          = Inr (n', pos, syms')"
      by (auto simp: Let_def split: sum.splits if_splits)
    from Cons.IH [OF r] False show ?thesis by (simp add: site_symbols_def)
  qed
qed

lemma site_table_first:
  assumes "site_table env data k st = Inr (n', st')"
    and "pos_data st = PyList []" and "symbol_data st = []"
  shows "symbol_data st' = site_symbols env (drop (k + 1) data)
         \<and> arr_len (pos_data st') = length (site_symbols env (drop (k + 1) data))
         \<and> (\<exists>rows. pos_data st' = NdArray rows)
         \<and> (\<exists>a. atomic_data st' = Some a
                \<and> symbols a = site_symbols env (drop (k + 1) data))"
proof -
  from assms(2) have z: "\<not> 0 < arr_len (pos_data st)" by (simp add: arr_len_def rows_of_def)
  with assms obtain n1 pos syms pos' where
    l: "site_loop env (drop (k + 1) data) k (PyList []) [] = Inr (n1, pos, syms)"
    and m: "arr_mul env (np_array pos) (alat st) = Inr pos'"
    and p: "pos_data st' = pos'" and s: "symbol_data st' = syms"
    and a: "\<exists>a. atomic_data st' = Some a \<and> symbols a = syms"
    by (auto simp: site_table_def split: sum.splits option.splits prod.splits)
  from site_loop_symbols [OF l] have syms: "syms = site_symbols env (drop (k + 1) data)"
    and len: "arr_len pos = length (site_symbols env (drop (k + 1) data))" by simp_all
  from m have "arr_len pos' = arr_len pos"
    by (auto simp: np_array_def arr_len_def [of pos] dest: arr_mul_ndarray_len)
  moreover from m have "\<exists>rows. pos' = NdArray rows"
    by (auto simp: np_array_def dest: arr_mul_ndarray)
  ultimately show ?thesis using p s a syms len by simp
qed

lemma pos_loop_len:
  "pos_loop env data is n pos = Inr (n', pos') \<Longrightarrow> arr_len pos' = arr_len pos"
proof (induction "is" arbitrary: n pos)
  case Nil
  then show ?case by simp
next
  case (Cons i "is")
  from Cons.prems obtain vals pos1 where a: "arr_row_assign env pos i vals = Inr pos1"
    and r: "pos_loop env data is (n + 1) pos1 = Inr (n', pos')"
    by (auto split: sum.splits)
  from Cons.IH [OF r] arr_row_assign_rows [OF a] show ?case by (simp add: arr_len_def)
qed

lemma site_table_later:
  "0 < arr_len (pos_data st) \<Longrightarrow> site_table env data n st = Inr (n, st)"
  by (simp add: site_table_def)

lemma cell_parameters_symbols:
  assumes "cell_parameters env data n st = Inr (n', st')"
  shows "pos_data st' = pos_data st \<and> symbol_data st' = symbol_data st
         \<and> map_option symbols (atomic_data st') = map_option symbols (atomic_data st)"
  using assms
  by (auto simp: cell_parameters_def Let_def simp del: cell_loop.simps
      split: sum.splits prod.splits if_splits option.splits)

lemma atomic_positions_symbols:
  assumes "atomic_positions env data n st = Inr (n', st')"
  shows "arr_len (pos_data st') = arr_len (pos_data st) \<and> symbol_data st' = symbol_data st
         \<and> map_option symbols (atomic_data st') = map_option symbols (atomic_data st)"
proof -
  from assms obtain n1 pos where
    l: "pos_loop env data [0..<arr_len (pos_data st)] n (pos_data st) = Inr (n1, pos)"
    by (auto simp: atomic_positions_def Let_def split: sum.splits)
  note len = pos_loop_len [OF l]
  from assms l have "pos_data st' = pos \<and> symbol_data st' = symbol_data st
         \<and> map_option symbols (atomic_data st') = map_option symbols (atomic_data st)"
    by (auto simp: atomic_positions_def Let_def set_positions_of_def atoms_truthy_def
        split: sum.splits if_splits option.splits)
  with len show ?thesis by simp
qed

lemma step_symbols:
  assumes "step env data n st = Inr (n', st')"
    and "classify (data ! n) = SiteTable \<longrightarrow> 0 < arr_len (pos_data st)"
  shows "arr_len (pos_data st') = arr_len (pos_data st) \<and> symbol_data st' = symbol_data st
         \<and> map_option symbols (atomic_data st') = map_option symbols (atomic_data st)
         \<and> structures st' = structures st"
proof (cases "classify (data ! n)")
  case SiteTable
  with assms site_table_later [of st env data n] show ?thesis by (simp add: step_def)
next
  case CellParameters
  with assms have c: "cell_parameters env data n st = Inr (n', st')" by (simp add: step_def)
  from step_shape [OF assms(1)] CellParameters have "structures st' = structures st"
    by auto
  with cell_parameters_symbols [OF c] show ?thesis by simp
next
  case AtomicPositions
  with assms have c: "atomic_positions env data n st = Inr (n', st')" by (simp add: step_def)
  from step_shape [OF assms(1)] AtomicPositions have "structures st' = structures st"
    by auto
  with atomic_positions_symbols [OF c] show ?thesis by simp
next
  case Terminated
  with step_shape [OF assms(1)] show ?thesis by auto
next
  case ProgramBanner
  with step_shape [OF assms(1)] show ?thesis by auto
next
  case Celldm
  with step_shape [OF assms(1)] show ?thesis by auto
next
  case CrystalAxes
  with step_shape [OF assms(1)] show ?thesis by auto
next
  case TotalEnergy
  with step_shape [OF assms(1)] show ?thesis by auto
next
  case ExchangeCorrelation
  with step_shape [OF assms(1)] show ?thesis by auto
next
  case Timing
  with step_shape [OF assms(1)] show ?thesis by auto
next
  case NoRule
  with step_shape [OF assms(1)] show ?thesis by auto
qed

lemma step_before_table:
  assumes "step env data n st = Inr (n', st')" and "classify (data ! n) \<noteq> SiteTable"
    and "pos_data st = PyList []"
  shows "pos_data st' = PyList []"
proof (cases "classify (data ! n)")
  case SiteTable
  with assms show ?thesis by simp
next
  case CellParameters
  with assms have c: "cell_parameters env data n st = Inr (n', st')" by (simp add: step_def)
  from cell_parameters_symbols [OF c] assms(3) show ?thesis by simp
next
  case AtomicPositions
  with assms have c: "atomic_positions env data n st = Inr (n', st')" by (simp add: step_def)
  with assms(3) show ?thesis
    by (auto simp: atomic_positions_def Let_def arr_len_def rows_of_def set_positions_of_def
        split: sum.splits if_splits option.splits)
next
  case Terminated
  with step_shape [OF assms(1)] assms(3) show ?thesis by auto
next
  case ProgramBanner
  with step_shape [OF assms(1)] assms(3) show ?thesis by auto
next
  case Celldm
  with step_shape [OF assms(1)] assms(3) show ?thesis by auto
next
  case CrystalAxes
  with step_shape [OF assms(1)] assms(3) show ?thesis by auto
next
  case TotalEnergy
  with step_shape [OF assms(1)] assms(3) show ?thesis by auto
next
  case ExchangeCorrelation
  with step_shape [OF assms(1)] assms(3) show ?thesis by auto
next
  case Timing
  with step_shape [OF assms(1)] assms(3) show ?thesis by auto
next
  case NoRule
  with step_shape [OF assms(1)] assms(3) show ?thesis by auto
qed

lemma scan_append:
  "scan env data (xs @ ys) st =
     (case scan env data xs st of Inl e \<Rightarrow> Inl e | Inr st' \<Rightarrow> scan env data ys st')"
  by (induction xs arbitrary: st) (auto split: sum.splits)

lemma scan_before_table:
  assumes "scan env data ns st = Inr st'"
    and "\<forall>n \<in> set ns. classify (data ! n) \<noteq> SiteTable"
    and "pos_data st = PyList []"
  shows "pos_data st' = PyList [] \<and> symbol_data st' = symbol_data st
         \<and> structures st' = structures st"
  using assms
proof (induction ns arbitrary: st)
  case Nil
  then show ?case by simp
next
  case (Cons n ns)
  from Cons.prems(1) obtain n1 st1 where s: "step env data n st = Inr (n1, st1)"
    and r: "scan env data ns st1 = Inr st'"
    by (auto split: sum.splits)
  from Cons.prems(2) have c: "classify (data ! n) \<noteq> SiteTable" by simp
  from step_before_table [OF s c Cons.prems(3)] have p: "pos_data st1 = PyList []" .
  from c have "classify (data ! n) = SiteTable \<longrightarrow> 0 < arr_len (pos_data st)" by simp
  from step_symbols [OF s this] have
    e: "symbol_data st1 = symbol_data st \<and> structures st1 = structures st" by simp
  from Cons.prems(2) have "\<forall>n \<in> set ns. classify (data ! n) \<noteq> SiteTable" by simp
  from Cons.IH [OF r this p] e show ?case by simp
qed

lemma scan_after_table:
  assumes "scan env data ns st = Inr st'" and "0 < arr_len (pos_data st)"
  shows "symbol_data st' = symbol_data st
         \<and> map_option symbols (atomic_data st') = map_option symbols (atomic_data st)
         \<and> structures st' = structures st"
  using assms
proof (induction ns arbitrary: st)
  case Nil
  then show ?case by simp
next
  case (Cons n ns)
  from Cons.prems(1) obtain n1 st1 where s: "step env data n st = Inr (n1, st1)"
    and r: "scan env data ns st1 = Inr st'"
    by (auto split: sum.splits)
  from Cons.prems(2) have "classify (data ! n) = SiteTable \<longrightarrow> 0 < arr_len (pos_data st)"
    by simp
  note e = step_symbols [OF s this]
  with Cons.prems(2) have "0 < arr_len (pos_data st1)" by simp
  from Cons.IH [OF r this] e show ?case by simp
qed

lemma upt_split: "k < n \<Longrightarrow> [0..<n] = [0..<k] @ k # [Suc k..<n]"
proof -
  assume "k < n"
  then obtain m where m: "n = k + Suc m" using less_imp_Suc_add by auto
  have "[0..<k + Suc m] = [0..<k] @ [k..<k + Suc m]"
    by (rule upt_add_eq_append) simp
  moreover have "[k..<k + Suc m] = k # [Suc k..<k + Suc m]"
    by (rule upt_conv_Cons) simp
  ultimately show ?thesis using m by simp
qed

lemma before_first_table:
  assumes "k < length data" and "SiteTable \<notin> set (map classify (take k data))"
  shows "\<forall>n \<in> set [0..<k]. classify (data ! n) \<noteq> SiteTable"
proof
  fix n assume "n \<in> set [0..<k]"
  then have n: "n < k" by simp
  with assms(1) have "n < length (take k data)" by simp
  then have "take k data ! n \<in> set (take k data)" by (rule nth_mem)
  with n have "data ! n \<in> set (take k data)" by simp
  then have "classify (data ! n) \<in> set (map classify (take k data))" by simp
  with assms(2) show "classify (data ! n) \<noteq> SiteTable" by auto
qed

text \<open>The run up to the first site table and through it.\<close>

lemma scan_first_table:
  assumes "scan env data ([0..<k] @ k # ns) (init_state base fn) = Inr st"
    and "k < length data" and "classify (data ! k) = SiteTable"
    and "SiteTable \<notin> set (map classify (take k data))"
  shows "\<exists>st1 n2 st2.
           scan env data [0..<k] (init_state base fn) = Inr st1
           \<and> step env data k st1 = Inr (n2, st2)
           \<and> scan env data ns st2 = Inr st
           \<and> structures st2 = structures base
           \<and> symbol_data st2 = site_symbols env (drop (k + 1) data)
           \<and> arr_len (pos_data st2) = length (site_symbols env (drop (k + 1) data))
           \<and> (\<exists>rows. pos_data st2 = NdArray rows)
           \<and> (\<exists>a. atomic_data st2 = Some a
                  \<and> symbols a = site_symbols env (drop (k + 1) data))"
proof -
  let ?i = "init_state base fn"
  from assms(1) obtain st1 n2 st2 where s1: "scan env data [0..<k] ?i = Inr st1"
    and s2: "step env data k st1 = Inr (n2, st2)"
    and s3: "scan env data ns st2 = Inr st"
    by (auto simp: scan_append split: sum.splits)
  note nt = before_first_table [OF assms(2) assms(4)]
  have i: "pos_data ?i = PyList []" "symbol_data ?i = []" "structures ?i = structures base"
    by (simp_all add: init_state_def)
  from scan_before_table [OF s1 nt i(1)] i have
    b: "pos_data st1 = PyList []" "symbol_data st1 = []" "structures st1 = structures base"
    by simp_all
  from s2 assms(3) have t: "site_table env data k st1 = Inr (n2, st2)"
    by (simp add: step_def)
  from site_table_shape [OF t] b(3) have "structures st2 = structures base" by auto
  with site_table_first [OF t b(1) b(2)] s1 s2 s3 show ?thesis by blast
qed

subsubsection \<open>After a first table with a row\<close>

lemma run_append:
  "run env data (xs @ ys) st =
     run env data xs st
     @ (case scan env data xs st of Inl e \<Rightarrow> [] | Inr st' \<Rightarrow> run env data ys st')"
  by (induction xs arbitrary: st) (auto split: sum.splits)

lemma run_index: "(j, s, s') \<in> set (run env data ns st) \<Longrightarrow> j \<in> set ns"
  by (induction ns arbitrary: st) (auto split: sum.splits)

lemma run_after_table:
  assumes "(j, s, s') \<in> set (run env data ns st)" and "0 < arr_len (pos_data st)"
  shows "0 < arr_len (pos_data s) \<and> symbol_data s = symbol_data st
         \<and> map_option symbols (atomic_data s) = map_option symbols (atomic_data st)
         \<and> (\<exists>n'. step env data j s = Inr (n', s'))"
  using assms
proof (induction ns arbitrary: st)
  case Nil
  then show ?case by simp
next
  case (Cons n ns)
  from Cons.prems(1) obtain n1 st1 where s: "step env data n st = Inr (n1, st1)"
    by (cases "step env data n st") auto
  from Cons.prems(2) have "classify (data ! n) = SiteTable \<longrightarrow> 0 < arr_len (pos_data st)"
    by simp
  note e = step_symbols [OF s this]
  from Cons.prems(1) s have
    "(j, s, s') = (n, st, st1) \<or> (j, s, s') \<in> set (run env data ns st1)" by simp
  then show ?case
  proof
    assume "(j, s, s') = (n, st, st1)"
    with s Cons.prems(2) show ?thesis by simp
  next
    assume m: "(j, s, s') \<in> set (run env data ns st1)"
    from e Cons.prems(2) have "0 < arr_len (pos_data st1)" by simp
    from Cons.IH [OF m this] e show ?thesis by simp
  qed
qed

lemma step_no_override:
  assumes "step env data j s = Inr (n', s')" and "0 < arr_len (pos_data s)"
    and "classify (data ! j) \<notin> {CellParameters, AtomicPositions}"
  shows "atomic_data s' = atomic_data s \<and> pos_data s' = pos_data s
         \<and> symbol_data s' = symbol_data s"
proof (cases "classify (data ! j)")
  case SiteTable
  with assms site_table_later [of s env data j] show ?thesis by (simp add: step_def)
next
  case CellParameters
  with assms(3) show ?thesis by simp
next
  case AtomicPositions
  with assms(3) show ?thesis by simp
next
  case Terminated
  with step_shape [OF assms(1)] show ?thesis by auto
next
  case ProgramBanner
  with step_shape [OF assms(1)] show ?thesis by auto
next
  case Celldm
  with step_shape [OF assms(1)] show ?thesis by auto
next
  case CrystalAxes
  with step_shape [OF assms(1)] show ?thesis by auto
next
  case TotalEnergy
  with step_shape [OF assms(1)] show ?thesis by auto
next
  case ExchangeCorrelation
  with step_shape [OF assms(1)] show ?thesis by auto
next
  case Timing
  with step_shape [OF assms(1)] show ?thesis by auto
next
  case NoRule
  with step_shape [OF assms(1)] show ?thesis by auto
qed

lemma first_table_with_row:
  assumes "parse env base fn data = Inr r"
    and "k < length data" and "classify (data ! k) = SiteTable"
    and "SiteTable \<notin> set (map classify (take k data))"
    and "site_symbols env (drop (k + 1) data) \<noteq> []"
  shows "symbol_data r = site_symbols env (drop (k + 1) data)
         \<and> (\<exists>a. atomic_data r = Some a
                \<and> symbols a = site_symbols env (drop (k + 1) data)
                \<and> structures r = structures base @ [a])
         \<and> (\<forall>(j, s, s') \<in> set (run env data [0..<length data] (init_state base fn)).
               k < j \<longrightarrow>
                 (classify (data ! j) = SiteTable \<longrightarrow> step env data j s = Inr (j, s))
                 \<and> (classify (data ! j) \<notin> {CellParameters, AtomicPositions} \<longrightarrow>
                       atomic_data s' = atomic_data s \<and> pos_data s' = pos_data s
                       \<and> symbol_data s' = symbol_data s)
                 \<and> map_option symbols (atomic_data s')
                     = Some (site_symbols env (drop (k + 1) data)))"
proof -
  let ?S = "site_symbols env (drop (k + 1) data)"
  let ?i = "init_state base fn"
  let ?ns = "[Suc k..<length data]"
  from assms(1) obtain st where sc: "scan env data [0..<length data] ?i = Inr st"
    and r: "r = finish env fn st"
    by (auto simp: parse_def split: sum.splits)
  note sp = upt_split [OF assms(2)]
  from sc sp have "scan env data ([0..<k] @ k # ?ns) ?i = Inr st" by simp
  from scan_first_table [OF this assms(2) assms(3) assms(4)]
  obtain st1 n2 st2 a2 where s1: "scan env data [0..<k] ?i = Inr st1"
    and s2: "step env data k st1 = Inr (n2, st2)"
    and s3: "scan env data ?ns st2 = Inr st"
    and f: "structures st2 = structures base" "symbol_data st2 = ?S"
      "arr_len (pos_data st2) = length ?S" "atomic_data st2 = Some a2" "symbols a2 = ?S"
    by blast
  from f(3) assms(5) have pos: "0 < arr_len (pos_data st2)" by simp
  from scan_after_table [OF s3 pos] f obtain a where
    g: "symbol_data st = ?S" "atomic_data st = Some a" "symbols a = ?S"
      "structures st = structures base"
    by auto
  with assms(5) r have one: "symbol_data r = ?S
         \<and> (\<exists>a. atomic_data r = Some a \<and> symbols a = ?S
                \<and> structures r = structures base @ [a])"
    by (simp add: finish_def Let_def atoms_truthy_def)
  have two: "(classify (data ! j) = SiteTable \<longrightarrow> step env data j s = Inr (j, s))
             \<and> (classify (data ! j) \<notin> {CellParameters, AtomicPositions} \<longrightarrow>
                   atomic_data s' = atomic_data s \<and> pos_data s' = pos_data s
                   \<and> symbol_data s' = symbol_data s)
             \<and> map_option symbols (atomic_data s') = Some ?S"
    if m: "(j, s, s') \<in> set (run env data [0..<length data] ?i)" and kj: "k < j"
    for j s s'
  proof -
    from sp s1 s2 have
      "run env data [0..<length data] ?i
         = run env data [0..<k] ?i @ (k, st1, st2) # run env data ?ns st2"
      by (simp add: run_append)
    with m kj have "(j, s, s') \<in> set (run env data ?ns st2)"
      by (auto dest: run_index)
    from run_after_table [OF this pos] f obtain n' where
      h: "0 < arr_len (pos_data s)" "map_option symbols (atomic_data s) = Some ?S"
      and st: "step env data j s = Inr (n', s')"
      by auto
    from h(1) have "classify (data ! j) = SiteTable \<longrightarrow> 0 < arr_len (pos_data s)" by simp
    from step_symbols [OF st this] h(2) have
      x: "map_option symbols (atomic_data s') = Some ?S" by simp
    have y: "step env data j s = Inr (j, s)" if "classify (data ! j) = SiteTable"
      using that site_table_later [OF h(1)] by (simp add: step_def)
    have z: "atomic_data s' = atomic_data s \<and> pos_data s' = pos_data s
             \<and> symbol_data s' = symbol_data s"
      if "classify (data ! j) \<notin> {CellParameters, AtomicPositions}"
      using step_no_override [OF st h(1) that] .
    from x y z show ?thesis by blast
  qed
  from one two show ?thesis by blast
qed

subsubsection \<open>After a first table without a row\<close>

lemma site_loop_ndarray:
  "site_loop env ls n (NdArray rows) syms = Inr (n', pos, syms') \<Longrightarrow> pos = NdArray rows"
  by (cases ls) (auto simp: Let_def split: if_splits)

lemma site_table_empty_array:
  assumes "site_table env data n st = Inr (n', st')" and "pos_data st = NdArray []"
  shows "pos_data st' = NdArray []"
proof -
  from assms(2) have z: "\<not> 0 < arr_len (pos_data st)" by (simp add: arr_len_def rows_of_def)
  with assms obtain n1 pos syms pos' where
    l: "site_loop env (drop (n + 1) data) n (NdArray []) (symbol_data st) = Inr (n1, pos, syms)"
    and m: "arr_mul env (np_array pos) (alat st) = Inr pos'"
    and p: "pos_data st' = pos'"
    by (auto simp: site_table_def split: sum.splits option.splits prod.splits)
  from site_loop_ndarray [OF l] m have "pos' = NdArray []"
    by (auto simp: np_array_def rows_of_def dest: arr_mul_ndarray)
  with p show ?thesis by simp
qed

lemma step_empty_array:
  assumes "step env data n st = Inr (n', st')" and "pos_data st = NdArray []"
  shows "pos_data st' = NdArray []"
proof (cases "classify (data ! n)")
  case SiteTable
  with assms have "site_table env data n st = Inr (n', st')" by (simp add: step_def)
  from site_table_empty_array [OF this assms(2)] show ?thesis .
next
  case CellParameters
  with assms have c: "cell_parameters env data n st = Inr (n', st')" by (simp add: step_def)
  from cell_parameters_symbols [OF c] assms(2) show ?thesis by simp
next
  case AtomicPositions
  with assms have c: "atomic_positions env data n st = Inr (n', st')" by (simp add: step_def)
  with assms(2) show ?thesis
    by (auto simp: atomic_positions_def Let_def arr_len_def rows_of_def set_positions_of_def
        split: sum.splits if_splits option.splits)
next
  case Terminated
  with step_shape [OF assms(1)] assms(2) show ?thesis by auto
next
  case ProgramBanner
  with step_shape [OF assms(1)] assms(2) show ?thesis by auto
next
  case Celldm
  with step_shape [OF assms(1)] assms(2) show ?thesis by auto
next
  case CrystalAxes
  with step_shape [OF assms(1)] assms(2) show ?thesis by auto
next
  case TotalEnergy
  with step_shape [OF assms(1)] assms(2) show ?thesis by auto
next
  case ExchangeCorrelation
  with step_shape [OF assms(1)] assms(2) show ?thesis by auto
next
  case Timing
  with step_shape [OF assms(1)] assms(2) show ?thesis by auto
next
  case NoRule
  with step_shape [OF assms(1)] assms(2) show ?thesis by auto
qed

lemma scan_empty_array:
  "scan env data ns st = Inr st' \<Longrightarrow> pos_data st = NdArray [] \<Longrightarrow> pos_data st' = NdArray []"
proof (induction ns arbitrary: st)
  case Nil
  then show ?case by simp
next
  case (Cons n ns)
  from Cons.prems(1) obtain n1 st1 where s: "step env data n st = Inr (n1, st1)"
    and r: "scan env data ns st1 = Inr st'"
    by (auto split: sum.splits)
  from Cons.IH [OF r step_empty_array [OF s Cons.prems(2)]] show ?case .
qed

lemma site_table_crash:
  assumes "pos_data st = NdArray []" and "m + 1 < length data"
    and "py_split_ws (data ! (m + 1)) \<noteq> []"
  shows "site_table env data m st = Inl AttributeError"
proof -
  from assms(2) have "drop (m + 1) data = data ! (m + 1) # drop (Suc (m + 1)) data"
    by (rule Cons_nth_drop_Suc [symmetric])
  with assms(1) assms(3) show ?thesis
    by (simp add: site_table_def arr_len_def rows_of_def Let_def)
qed

lemma first_table_without_row:
  assumes "k < length data" and "classify (data ! k) = SiteTable"
    and "SiteTable \<notin> set (map classify (take k data))"
    and "site_symbols env (drop (k + 1) data) = []"
    and "k < m" and "m + 1 < length data" and "classify (data ! m) = SiteTable"
    and "py_split_ws (data ! (m + 1)) \<noteq> []"
  shows "(\<forall>st. scan env data [0..<m] (init_state base fn) = Inr st
            \<longrightarrow> step env data m st = Inl AttributeError)
         \<and> (\<exists>e. parse env base fn data = Inl e)"
proof -
  let ?i = "init_state base fn"
  have a: "step env data m st = Inl AttributeError"
    if sc: "scan env data [0..<m] ?i = Inr st" for st
  proof -
    from sc upt_split [OF assms(5)] have
      "scan env data ([0..<k] @ k # [Suc k..<m]) ?i = Inr st" by simp
    from scan_first_table [OF this assms(1) assms(2) assms(3)] assms(4)
    obtain st2 rows where s3: "scan env data [Suc k..<m] st2 = Inr st"
      and "arr_len (pos_data st2) = 0" and "pos_data st2 = NdArray rows"
      by auto
    then have "pos_data st2 = NdArray []" by (simp add: arr_len_def rows_of_def)
    from scan_empty_array [OF s3 this] have "pos_data st = NdArray []" .
    from site_table_crash [OF this assms(6) assms(8)] assms(7) show ?thesis
      by (simp add: step_def)
  qed
  from assms(6) have "m < length data" by simp
  from upt_split [OF this] have
    "scan env data [0..<length data] ?i
       = (case scan env data [0..<m] ?i of
            Inl e \<Rightarrow> Inl e
          | Inr st \<Rightarrow> scan env data (m # [Suc m..<length data]) st)"
    by (simp only: scan_append)
  with a have "\<exists>e. scan env data [0..<length data] ?i = Inl e"
    by (cases "scan env data [0..<m] ?i") auto
  then have "\<exists>e. parse env base fn data = Inl e" by (auto simp: parse_def)
  with a show ?thesis by blast
qed

lemma parse_first_table:
  "map_sum id symbol_data (parse test_env test_base ''a.out'' log_first_table)
     = Inr [''Fe'']"
  by code_simp

lemma first_table_rules:
  "map classify log_first_table =
     [Celldm, CrystalAxes, NoRule, NoRule, NoRule, SiteTable, NoRule, NoRule,
      SiteTable, NoRule, NoRule]"
  by code_simp

lemma first_table_symbols:
  "site_symbols test_env (drop (5 + 1) log_first_table) = [''Fe'']"
  by code_simp

lemma first_table_run:
  "map fst (run test_env log_first_table [0..<length log_first_table]
       (init_state test_base ''a.out''))
     = [0, 1, 2, 3, 4, 5, 6, 7, 8, 9, 10]"
  by code_simp

lemma two_tables_rules:
  "map classify log_two_tables =
     [Celldm, CrystalAxes, NoRule, NoRule, NoRule, SiteTable, NoRule, SiteTable,
      NoRule, NoRule]"
  by code_simp

lemma two_tables_symbols: "site_symbols test_env (drop (5 + 1) log_two_tables) = []"
  by code_simp

lemma two_tables_row: "py_split_ws (log_two_tables ! (7 + 1)) = [''1'', ''Fe1'', ''tau('', ''1)'', ''='', ''('', ''0.0'', ''0.0'', ''0.0'', '')'']"
  by code_simp

lemma parse_two_tables:
  "parse test_env test_base ''a.out'' log_two_tables = Inl AttributeError"
  by code_simp

text \<open>
  C6. The header of a site table is skipped when the positions read so far are not empty
  (line 98), which is the case after a first table with at least one row. Then the claim
  holds: in a parse that completes, the symbols of the structure, and their order, are those
  of the rows of the first table; in every later iteration of the loop, the header of a site
  table leaves the index and the state as they are, a line that is neither a
  \<open>CELL_PARAMETERS\<close> nor an \<open>ATOMIC_POSITIONS\<close> header leaves the structure, the positions
  and the symbols as they are, and the symbols of the structure stay those of the first table.

  After a first table without a row the positions are an empty array, and the guard does not
  hold: at the header of a later table followed by a row, the handler raises
  \<open>AttributeError\<close>, an array having no \<open>append\<close>, and the parse does not complete. The
  log \<open>log_two_tables\<close> is such a log.
\<close>

theorem site_table_guard_by_length:
  assumes "k < length data" and "classify (data ! k) = SiteTable"
    and "SiteTable \<notin> set (map classify (take k data))"
  shows "(site_symbols env (drop (k + 1) data) \<noteq> [] \<and> parse env base fn data = Inr r \<longrightarrow>
            symbol_data r = site_symbols env (drop (k + 1) data)
            \<and> (\<exists>a. atomic_data r = Some a
                   \<and> symbols a = site_symbols env (drop (k + 1) data)
                   \<and> structures r = structures base @ [a])
            \<and> (\<forall>(j, s, s') \<in> set (run env data [0..<length data] (init_state base fn)).
                  k < j \<longrightarrow>
                    (classify (data ! j) = SiteTable \<longrightarrow> step env data j s = Inr (j, s))
                    \<and> (classify (data ! j) \<notin> {CellParameters, AtomicPositions} \<longrightarrow>
                          atomic_data s' = atomic_data s \<and> pos_data s' = pos_data s
                          \<and> symbol_data s' = symbol_data s)
                    \<and> map_option symbols (atomic_data s')
                        = Some (site_symbols env (drop (k + 1) data))))
         \<and> (site_symbols env (drop (k + 1) data) = [] \<and> k < m \<and> m + 1 < length data
              \<and> classify (data ! m) = SiteTable \<and> py_split_ws (data ! (m + 1)) \<noteq> [] \<longrightarrow>
            (\<forall>st. scan env data [0..<m] (init_state base fn) = Inr st
               \<longrightarrow> step env data m st = Inl AttributeError)
            \<and> (\<exists>e. parse env base fn data = Inl e))
         \<and> parse test_env test_base ''a.out'' log_two_tables = Inl AttributeError"
  using first_table_with_row [OF _ assms, of env base fn r]
    first_table_without_row [OF assms, of env m base fn] parse_two_tables
  by blast

theorem site_table_guard_by_length_witness:
  "map classify log_first_table =
     [Celldm, CrystalAxes, NoRule, NoRule, NoRule, SiteTable, NoRule, NoRule,
      SiteTable, NoRule, NoRule]
   \<and> site_symbols test_env (drop (5 + 1) log_first_table) = [''Fe'']
   \<and> (\<exists>r a. parse test_env test_base ''a.out'' log_first_table = Inr r
         \<and> symbol_data r = [''Fe''] \<and> atomic_data r = Some a \<and> symbols a = [''Fe'']
         \<and> structures r = structures test_base @ [a])
   \<and> (\<exists>s s'. (8, s, s') \<in> set (run test_env log_first_table [0..<length log_first_table]
                                 (init_state test_base ''a.out''))
         \<and> step test_env log_first_table 8 s = Inr (8, s)
         \<and> map_option symbols (atomic_data s') = Some [''Fe''])
   \<and> map classify log_two_tables =
       [Celldm, CrystalAxes, NoRule, NoRule, NoRule, SiteTable, NoRule, SiteTable,
        NoRule, NoRule]
   \<and> site_symbols test_env (drop (5 + 1) log_two_tables) = []
   \<and> (\<exists>e. parse test_env test_base ''a.out'' log_two_tables = Inl e)"
proof -
  let ?run = "run test_env log_first_table [0..<length log_first_table]
                (init_state test_base ''a.out'')"
  from parse_first_table obtain r where
    p: "parse test_env test_base ''a.out'' log_first_table = Inr r"
    by (cases "parse test_env test_base ''a.out'' log_first_table") auto
  have k: "5 < length log_first_table" by code_simp
  have c: "classify (log_first_table ! 5) = SiteTable" by code_simp
  have n: "SiteTable \<notin> set (map classify (take 5 log_first_table))" by code_simp
  have s: "site_symbols test_env (drop (5 + 1) log_first_table) \<noteq> []"
    unfolding first_table_symbols by simp
  note t = site_table_guard_by_length [OF k c n, of test_env test_base "''a.out''" r]
  from t s p have one: "symbol_data r = site_symbols test_env (drop (5 + 1) log_first_table)
      \<and> (\<exists>a. atomic_data r = Some a
             \<and> symbols a = site_symbols test_env (drop (5 + 1) log_first_table)
             \<and> structures r = structures test_base @ [a])"
    by blast
  from t s p have all: "\<forall>(j, s, s') \<in> set ?run.
      5 < j \<longrightarrow>
        (classify (log_first_table ! j) = SiteTable
           \<longrightarrow> step test_env log_first_table j s = Inr (j, s))
        \<and> (classify (log_first_table ! j) \<notin> {CellParameters, AtomicPositions} \<longrightarrow>
              atomic_data s' = atomic_data s \<and> pos_data s' = pos_data s
              \<and> symbol_data s' = symbol_data s)
        \<and> map_option symbols (atomic_data s')
            = Some (site_symbols test_env (drop (5 + 1) log_first_table))"
    by blast
  have "length (map fst ?run) = 11" unfolding first_table_run by simp
  then have len: "8 < length ?run" by simp
  then have mem: "?run ! 8 \<in> set ?run" by (rule nth_mem)
  from len have "fst (?run ! 8) = map fst ?run ! 8" by simp
  also have "\<dots> = 8" unfolding first_table_run by simp
  finally obtain s s' where e: "?run ! 8 = (8, s, s')" by (cases "?run ! 8") auto
  with mem have mem8: "(8, s, s') \<in> set ?run" by simp
  have c8: "classify (log_first_table ! 8) = SiteTable" by code_simp
  have l58: "(5 :: nat) < 8" by simp
  from bspec [OF all mem8, unfolded prod.case] have inst: "5 < (8 :: nat) \<longrightarrow>
        (classify (log_first_table ! 8) = SiteTable
           \<longrightarrow> step test_env log_first_table 8 s = Inr (8, s))
        \<and> (classify (log_first_table ! 8) \<notin> {CellParameters, AtomicPositions} \<longrightarrow>
              atomic_data s' = atomic_data s \<and> pos_data s' = pos_data s
              \<and> symbol_data s' = symbol_data s)
        \<and> map_option symbols (atomic_data s')
            = Some (site_symbols test_env (drop (5 + 1) log_first_table))"
    .
  from inst c8 l58 have two: "step test_env log_first_table 8 s = Inr (8, s)
      \<and> map_option symbols (atomic_data s')
          = Some (site_symbols test_env (drop (5 + 1) log_first_table))"
    by blast
  have k2: "5 < length log_two_tables" by code_simp
  have c2: "classify (log_two_tables ! 5) = SiteTable" by code_simp
  have n2: "SiteTable \<notin> set (map classify (take 5 log_two_tables))" by code_simp
  have m2: "7 + 1 < length log_two_tables" by code_simp
  have d2: "classify (log_two_tables ! 7) = SiteTable" by code_simp
  have r2: "py_split_ws (log_two_tables ! (7 + 1)) \<noteq> []"
    unfolding two_tables_row by simp
  from site_table_guard_by_length [OF k2 c2 n2, where env = test_env and m = 7
      and base = test_base and fn = "''a.out''"]
    two_tables_symbols m2 d2 r2
  have three: "\<exists>e. parse test_env test_base ''a.out'' log_two_tables = Inl e"
    by simp
  from p one have w3: "\<exists>r a. parse test_env test_base ''a.out'' log_first_table = Inr r
         \<and> symbol_data r = [''Fe''] \<and> atomic_data r = Some a \<and> symbols a = [''Fe'']
         \<and> structures r = structures test_base @ [a]"
    unfolding first_table_symbols by blast
  from mem8 two have w4: "\<exists>s s'. (8, s, s') \<in> set ?run
         \<and> step test_env log_first_table 8 s = Inr (8, s)
         \<and> map_option symbols (atomic_data s') = Some [''Fe'']"
    unfolding first_table_symbols by blast
  from first_table_rules first_table_symbols w3 w4 two_tables_rules two_tables_symbols three
  show ?thesis by blast
qed

subsection \<open>Logs without the optional lines\<close>
























subsubsection \<open>Blocks that are read without an exception\<close>



















subsubsection \<open>The scan of a log with well-formed blocks\<close>















end
